theory Spec2Isabelle
  imports Complex_Main "HOL-Library.Char_ord" "HOL-Library.List_Lexorder"
begin

section \<open>Numbers and exceptions of the backtester\<close>

text \<open>
  The backtester (\<^verbatim>\<open>src/quantitative_trading/backtester.py\<close>) computes with Python and
  NumPy floats.  They are modelled as exact reals extended by the three special values the
  program can produce or store: \<open>NaN\<close> (the sentinel a closed position keeps in its numeric
  fields) and the two infinities (the result of NumPy's division by zero).  Rounding error,
  overflow and the sign of zero are not modelled: a zero divisor counts as positive.
\<close>

datatype pyfloat = NaN | PInf | NInf | Fin real

fun fneg :: "pyfloat \<Rightarrow> pyfloat" where
  "fneg NaN = NaN"
| "fneg PInf = NInf"
| "fneg NInf = PInf"
| "fneg (Fin x) = Fin (- x)"

fun fadd :: "pyfloat \<Rightarrow> pyfloat \<Rightarrow> pyfloat" where
  "fadd NaN _ = NaN"
| "fadd _ NaN = NaN"
| "fadd (Fin x) (Fin y) = Fin (x + y)"
| "fadd PInf NInf = NaN"
| "fadd NInf PInf = NaN"
| "fadd PInf _ = PInf"
| "fadd NInf _ = NInf"
| "fadd (Fin x) PInf = PInf"
| "fadd (Fin x) NInf = NInf"

definition fsub :: "pyfloat \<Rightarrow> pyfloat \<Rightarrow> pyfloat" where
  "fsub a b = fadd a (fneg b)"

text \<open>The sign of a value that is not \<open>NaN\<close>: \<open>-1\<close>, \<open>0\<close> or \<open>1\<close>.\<close>

fun fsign :: "pyfloat \<Rightarrow> int" where
  "fsign NaN = 0"
| "fsign PInf = 1"
| "fsign NInf = - 1"
| "fsign (Fin x) = (if x = 0 then 0 else if 0 < x then 1 else - 1)"

definition inf_of_sign :: "int \<Rightarrow> pyfloat" where
  "inf_of_sign k = (if k = 0 then NaN else if 0 < k then PInf else NInf)"

fun fmul :: "pyfloat \<Rightarrow> pyfloat \<Rightarrow> pyfloat" where
  "fmul NaN _ = NaN"
| "fmul _ NaN = NaN"
| "fmul (Fin x) (Fin y) = Fin (x * y)"
| "fmul a b = inf_of_sign (fsign a * fsign b)"

text \<open>
  NumPy's true division: a finite non-zero value over zero is an infinity (with a warning,
  not an exception), zero over zero and infinity over infinity are \<open>NaN\<close>.
\<close>

fun fdiv :: "pyfloat \<Rightarrow> pyfloat \<Rightarrow> pyfloat" where
  "fdiv NaN _ = NaN"
| "fdiv _ NaN = NaN"
| "fdiv (Fin x) (Fin y) = (if y = 0 then inf_of_sign (fsign (Fin x)) else Fin (x / y))"
| "fdiv (Fin x) _ = Fin 0"
| "fdiv a (Fin y) = inf_of_sign (fsign a * (if y < 0 then - 1 else 1))"
| "fdiv _ _ = NaN"

fun fabs :: "pyfloat \<Rightarrow> pyfloat" where
  "fabs NaN = NaN"
| "fabs PInf = PInf"
| "fabs NInf = PInf"
| "fabs (Fin x) = Fin \<bar>x\<bar>"

text \<open>Comparisons: every comparison with \<open>NaN\<close> is false.\<close>

fun flt :: "pyfloat \<Rightarrow> pyfloat \<Rightarrow> bool" where
  "flt NaN _ = False"
| "flt _ NaN = False"
| "flt (Fin x) (Fin y) = (x < y)"
| "flt NInf b = (b \<noteq> NInf)"
| "flt a PInf = (a \<noteq> PInf)"
| "flt _ _ = False"

definition fgt :: "pyfloat \<Rightarrow> pyfloat \<Rightarrow> bool" where
  "fgt a b = flt b a"

text \<open>
  Python's \<^verbatim>\<open>round(x)\<close> with one argument: the nearest integer, a tie going to the even
  neighbour.
\<close>

definition py_round :: "real \<Rightarrow> int" where
  "py_round x =
     (let f = \<lfloor>x\<rfloor>; d = x - of_int f
      in if d < 1 / 2 then f else if 1 / 2 < d then f + 1
         else if even f then f else f + 1)"

text \<open>
  The exceptions the program raises.  \<open>ArithmeticError\<close> stands for Python's
  \<^verbatim>\<open>ZeroDivisionError\<close> and \<^verbatim>\<open>OverflowError\<close> (its two subclasses).  \<open>NameError\<close> is
  the read of a local variable that was never assigned.
\<close>

datatype error =
  AssertionError | ValueError | ArithmeticError | KeyError | IndexError | NameError

text \<open>\<^verbatim>\<open>round(x)\<close> on a float: \<^verbatim>\<open>ValueError\<close> on NaN, \<^verbatim>\<open>OverflowError\<close> on an infinity.\<close>

fun round_float :: "pyfloat \<Rightarrow> error + int" where
  "round_float NaN = Inl ValueError"
| "round_float PInf = Inl ArithmeticError"
| "round_float NInf = Inl ArithmeticError"
| "round_float (Fin x) = Inr (py_round x)"

section \<open>Position\<close>

text \<open>
  The class \<^verbatim>\<open>Position\<close>: \<open>ptype\<close> is the attribute \<^verbatim>\<open>type\<close> (\<open>1\<close> long, \<open>-1\<close> short).
  A closed position has the empty name and date and \<open>NaN\<close> in its numeric fields.
  The flag \<^verbatim>\<open>supress_print\<close> of every function only switches console output and is
  left out.
\<close>

record Position =
  ptype :: int
  name :: string
  date :: string
  entry_cash :: pyfloat
  price :: pyfloat
  amount :: pyfloat

definition Position_init :: "string \<Rightarrow> error + Position" where
  "Position_init pt =
     (if pt \<notin> {''long'', ''short''} then Inl ValueError
      else Inr \<lparr>ptype = (if pt = ''short'' then - 1 else 1), name = '''', date = '''',
                entry_cash = NaN, price = NaN, amount = NaN\<rparr>)"

definition is_open :: "Position \<Rightarrow> bool" where
  "is_open p = (name p \<noteq> '''')"

definition get_pnl :: "Position \<Rightarrow> pyfloat \<Rightarrow> pyfloat" where
  "get_pnl p pr =
     (let initial_val = fmul (Fin (of_int (ptype p))) (entry_cash p);
          new_mtm = fmul (fmul (Fin (of_int (ptype p))) (amount p)) pr
      in fsub new_mtm initial_val)"

text \<open>
  \<^verbatim>\<open>Position.open\<close>.  The cash and the price of a run are Python floats (the values of
  a row of \<^verbatim>\<open>iterrows\<close>), so \<^verbatim>\<open>entry_cash/price\<close> with a zero price raises
  \<^verbatim>\<open>ZeroDivisionError\<close> whatever the cash is; \<^verbatim>\<open>round\<close> raises on a quotient that
  is NaN or infinite.  All three happen before any attribute is assigned.  The model
  divides exactly where the program rounds the quotient to a float before \<^verbatim>\<open>round\<close>:
  the share counts agree unless the exact quotient lies within a rounding error of a
  half, or beyond the range of the floats.
\<close>

definition Position_open :: "Position \<Rightarrow> string \<Rightarrow> string \<Rightarrow> pyfloat \<Rightarrow> pyfloat \<Rightarrow> error + Position" where
  "Position_open p nm dt cash pr =
     (if is_open p then Inl AssertionError
      else if nm \<notin> {''kxi'', ''xlp''} then Inl ValueError
      else if pr = Fin 0 then Inl ArithmeticError
      else case round_float (fdiv cash pr) of
             Inl e \<Rightarrow> Inl e
           | Inr amt \<Rightarrow>
               Inr (p\<lparr>name := nm, date := dt, entry_cash := cash, price := pr,
                      amount := Fin (of_int amt)\<rparr>))"

definition Position_close :: "Position \<Rightarrow> pyfloat \<Rightarrow> error + (pyfloat \<times> Position)" where
  "Position_close p pr =
     (if \<not> is_open p then Inl AssertionError
      else Inr (get_pnl p pr,
                p\<lparr>name := '''', date := '''', entry_cash := NaN, price := NaN, amount := NaN\<rparr>))"

section \<open>Spread-pair accounting\<close>

definition find_short_long :: "Position \<Rightarrow> Position \<Rightarrow> pyfloat \<Rightarrow> pyfloat \<Rightarrow> pyfloat \<times> pyfloat" where
  "find_short_long short_pos long_pos kxi xlp =
     (if name short_pos = ''kxi'' then (kxi, xlp) else (xlp, kxi))"

text \<open>
  The truth value of the stop-loss parameter in \<^verbatim>\<open>(pnl < 0) and s\<close>: \<^verbatim>\<open>None\<close> and
  \<^verbatim>\<open>0.0\<close> are false, every other float (NaN too) is true.
\<close>

fun truthy :: "pyfloat option \<Rightarrow> bool" where
  "truthy None = False"
| "truthy (Some (Fin x)) = (x \<noteq> 0)"
| "truthy (Some _) = True"

text \<open>
  \<^verbatim>\<open>get_pnls\<close> returns the list \<^verbatim>\<open>[flag, pnl]\<close>.  The flag is \<^verbatim>\<open>False\<close> exactly when the
  stop-loss condition is hit (\<^verbatim>\<open>simulate\<close> closes the pair on \<^verbatim>\<open>not pnl_res[0]\<close>) and
  \<^verbatim>\<open>True\<close> otherwise.  The function assigns to no attribute of either position, so the
  model returns no positions.  The inner comparison is only reached with a truthy \<^verbatim>\<open>s\<close>.
\<close>

definition get_pnls ::
  "Position \<Rightarrow> Position \<Rightarrow> pyfloat \<Rightarrow> pyfloat \<Rightarrow> pyfloat \<Rightarrow> pyfloat option \<Rightarrow> error + (bool \<times> pyfloat)" where
  "get_pnls short_pos long_pos kxi xlp zeta s =
     (if \<not> is_open short_pos \<or> \<not> is_open long_pos then Inl AssertionError
      else
        let prices = find_short_long short_pos long_pos kxi xlp;
            pnl_short = get_pnl short_pos (fst prices);
            pnl_long = get_pnl long_pos (snd prices);
            pnl = fmul (fadd pnl_short pnl_long) (fsub (Fin 1) zeta);
            gross_cash = fmul (entry_cash short_pos) (Fin 2)
        in if flt pnl (Fin 0) \<and> truthy s
           then (if fgt (fdiv (fabs pnl) gross_cash) (the s) then Inr (False, Fin 0)
                 else Inr (True, pnl))
           else Inr (True, pnl))"

section \<open>Trade ledger\<close>

text \<open>
  One row of the data frame \<^verbatim>\<open>trade_log\<close>, with the columns of \<^verbatim>\<open>trade_log_cols\<close>
  (\<open>log_date\<close> is the column \<^verbatim>\<open>date\<close>).  The assignment
  \<^verbatim>\<open>trade_log.loc[len(trade_log)] = row\<close> appends the row.
\<close>

record LogRow =
  log_date :: string
  position_status :: string
  position_type :: string
  gross_cash :: pyfloat
  pnl :: pyfloat
  kxi_price :: pyfloat
  kxi_amount :: pyfloat
  xlp_price :: pyfloat
  xlp_amount :: pyfloat
  Reason :: "string option"

text \<open>
  \<^verbatim>\<open>close_positions\<close> mutates the ledger and both positions; the model returns the three.
  The parameter \<^verbatim>\<open>reason\<close> defaults to \<^verbatim>\<open>'Standard'\<close>.
\<close>

definition reason_default :: string where
  "reason_default = ''Standard''"

definition close_positions ::
  "LogRow list \<Rightarrow> string \<Rightarrow> Position \<Rightarrow> Position \<Rightarrow> pyfloat \<Rightarrow> pyfloat \<Rightarrow> pyfloat \<Rightarrow> string
     \<Rightarrow> error + (LogRow list \<times> Position \<times> Position)" where
  "close_positions trade_log dt short_pos long_pos kxi xlp zeta reason =
     (let is_short = (name short_pos = ''kxi'');
          ptype_str = (if is_short then ''short'' else ''long'');
          kxi_amt = (if is_short then amount short_pos else amount long_pos);
          xlp_amt = (if is_short then amount long_pos else amount short_pos);
          short_price = (if is_short then kxi else xlp);
          long_price = (if is_short then xlp else kxi);
          gross = fmul (entry_cash short_pos) (Fin 2)
      in case get_pnls short_pos long_pos kxi xlp zeta None of
           Inl e \<Rightarrow> Inl e
         | Inr pnl_ret \<Rightarrow>
             let row = \<lparr>log_date = dt, position_status = ''CLOSE'', position_type = ptype_str,
                        gross_cash = gross, pnl = snd pnl_ret, kxi_price = kxi,
                        kxi_amount = kxi_amt, xlp_price = xlp, xlp_amount = xlp_amt,
                        Reason = Some reason\<rparr>
             in (case Position_close short_pos short_price of
                   Inl e \<Rightarrow> Inl e
                 | Inr (_, short_pos') \<Rightarrow>
                     (case Position_close long_pos long_price of
                        Inl e \<Rightarrow> Inl e
                      | Inr (_, long_pos') \<Rightarrow> Inr (trade_log @ [row], short_pos', long_pos'))))"

definition open_positions ::
  "LogRow list \<Rightarrow> Position \<Rightarrow> Position \<Rightarrow> pyfloat \<Rightarrow> pyfloat \<Rightarrow> string \<Rightarrow> pyfloat \<Rightarrow> string
     \<Rightarrow> error + (LogRow list \<times> Position \<times> Position)" where
  "open_positions trade_log short_pos long_pos kxi xlp dt cash ptype_str =
     (if ptype_str \<notin> {''short'', ''long''} then Inl ValueError
      else
        let is_long = (ptype_str = ''long'')
        in case Position_open long_pos (if is_long then ''kxi'' else ''xlp'') dt cash
                  (if is_long then kxi else xlp) of
             Inl e \<Rightarrow> Inl e
           | Inr long_pos' \<Rightarrow>
               (case Position_open short_pos (if is_long then ''xlp'' else ''kxi'') dt cash
                       (if is_long then xlp else kxi) of
                  Inl e \<Rightarrow> Inl e
                | Inr short_pos' \<Rightarrow>
                    let kxi_amt = (if is_long then amount long_pos' else amount short_pos');
                        xlp_amt = (if is_long then amount short_pos' else amount long_pos');
                        row = \<lparr>log_date = dt, position_status = ''OPEN'',
                               position_type = ptype_str, gross_cash = fmul cash (Fin 2),
                               pnl = NaN, kxi_price = kxi, kxi_amount = kxi_amt,
                               xlp_price = xlp, xlp_amount = xlp_amt, Reason = None\<rparr>
                    in Inr (trade_log @ [row], short_pos', long_pos')))"

section \<open>Signal computation\<close>

text \<open>One row of the price series \<^verbatim>\<open>trading_df\<close> (\<open>row_date\<close> is its column \<^verbatim>\<open>date\<close>).\<close>

record Row =
  row_date :: string
  KXI_adj_close :: pyfloat
  XLP_adj_close :: pyfloat
  N_t :: pyfloat

fun first_index :: "string \<Rightarrow> Row list \<Rightarrow> nat option" where
  "first_index d [] = None"
| "first_index d (r # rs) =
     (if row_date r = d then Some 0 else map_option Suc (first_index d rs))"

text \<open>
  \<^verbatim>\<open>get_mday_returns\<close> sorts the series by date, finds the first row of today's date and
  reads the row \<open>m\<close> places before it by label: a label outside the index raises
  \<^verbatim>\<open>KeyError\<close>.  The sort is modelled as stable; with distinct dates, as the input has them,
  every sort gives the same series.
\<close>

definition get_mday_returns :: "Row list \<Rightarrow> Row \<Rightarrow> int \<Rightarrow> error + (pyfloat \<times> pyfloat)" where
  "get_mday_returns df row m =
     (let sorted_df = sort_key row_date df
      in case first_index (row_date row) sorted_df of
           None \<Rightarrow> Inl IndexError
         | Some i \<Rightarrow>
             let k = int i - m
             in if k < 0 \<or> int (length sorted_df) \<le> k then Inl KeyError
                else let subdf = sorted_df ! nat k
                     in Inr (fsub (fdiv (KXI_adj_close row) (KXI_adj_close subdf)) (Fin 1),
                             fsub (fdiv (XLP_adj_close row) (XLP_adj_close subdf)) (Fin 1)))"

section \<open>Calendar arithmetic of the cool-down\<close>

text \<open>
  The cool-down date is
  \<^verbatim>\<open>(datetime.strptime(date, '%Y-%m-%d') + relativedelta(months=1)).strftime('%Y-%m-%d')\<close>.
  These library functions are modelled by what they do on this format.  \<^verbatim>\<open>strptime\<close>
  accepts a four-digit year, a month \<^verbatim>\<open>1[0-2]|0[1-9]|[1-9]\<close> and a day
  \<^verbatim>\<open>3[01]|[12]\d|0[1-9]|[1-9]| [1-9]\<close>, separated by \<^verbatim>\<open>-\<close>, and raises \<^verbatim>\<open>ValueError\<close>
  on anything else, on the year 0 and on a day the month does not have.
\<close>

definition is_digit :: "char \<Rightarrow> bool" where
  "is_digit c = (c \<in> set ''0123456789'')"

definition digit_val :: "char \<Rightarrow> nat" where
  "digit_val c = of_char c - 48"

fun split_dash :: "string \<Rightarrow> string list" where
  "split_dash [] = [[]]"
| "split_dash (c # cs) =
     (if c = CHR ''-'' then [] # split_dash cs
      else (case split_dash cs of [] \<Rightarrow> [[c]] | w # ws \<Rightarrow> (c # w) # ws))"

fun parse_year :: "string \<Rightarrow> nat option" where
  "parse_year [a, b, c, d] =
     (if is_digit a \<and> is_digit b \<and> is_digit c \<and> is_digit d
      then Some (1000 * digit_val a + 100 * digit_val b + 10 * digit_val c + digit_val d)
      else None)"
| "parse_year _ = None"

fun parse_month :: "string \<Rightarrow> nat option" where
  "parse_month [a] = (if is_digit a \<and> a \<noteq> CHR ''0'' then Some (digit_val a) else None)"
| "parse_month [a, b] =
     (if a = CHR ''1'' \<and> b \<in> set ''012'' then Some (10 + digit_val b)
      else if a = CHR ''0'' \<and> is_digit b \<and> b \<noteq> CHR ''0'' then Some (digit_val b)
      else None)"
| "parse_month _ = None"

fun parse_day :: "string \<Rightarrow> nat option" where
  "parse_day [a] = (if is_digit a \<and> a \<noteq> CHR ''0'' then Some (digit_val a) else None)"
| "parse_day [a, b] =
     (if a = CHR ''3'' \<and> b \<in> set ''01'' then Some (30 + digit_val b)
      else if a \<in> set ''12'' \<and> is_digit b then Some (10 * digit_val a + digit_val b)
      else if a \<in> set ''0 '' \<and> is_digit b \<and> b \<noteq> CHR ''0'' then Some (digit_val b)
      else None)"
| "parse_day _ = None"

definition leap_year :: "nat \<Rightarrow> bool" where
  "leap_year y = (y mod 4 = 0 \<and> (y mod 100 \<noteq> 0 \<or> y mod 400 = 0))"

definition days_in_month :: "nat \<Rightarrow> nat \<Rightarrow> nat" where
  "days_in_month y m =
     (if m = 2 then (if leap_year y then 29 else 28)
      else if m \<in> {4, 6, 9, 11} then 30 else 31)"

definition strptime :: "string \<Rightarrow> error + (nat \<times> nat \<times> nat)" where
  "strptime s =
     (case split_dash s of
        [ys, ms, ds] \<Rightarrow>
          (case (parse_year ys, parse_month ms, parse_day ds) of
             (Some y, Some m, Some d) \<Rightarrow>
               if y = 0 \<or> days_in_month y m < d then Inl ValueError else Inr (y, m, d)
           | _ \<Rightarrow> Inl ValueError)
      | _ \<Rightarrow> Inl ValueError)"

text \<open>
  \<^verbatim>\<open>relativedelta(months=1)\<close>: the next month, the day cut down to the length of that
  month; the year 10000 is out of the range of \<^verbatim>\<open>datetime\<close>.
\<close>

definition add_month :: "nat \<times> nat \<times> nat \<Rightarrow> error + (nat \<times> nat \<times> nat)" where
  "add_month ymd =
     (case ymd of (y, m, d) \<Rightarrow>
        let y' = (if m = 12 then y + 1 else y);
            m' = (if m = 12 then 1 else m + 1)
        in if 9999 < y' then Inl ValueError
           else Inr (y', m', min (days_in_month y' m') d))"

definition digit_char :: "nat \<Rightarrow> char" where
  "digit_char n = ''0123456789'' ! (n mod 10)"

text \<open>
  \<^verbatim>\<open>strftime('%Y-%m-%d')\<close>, the year written with four digits (some platforms drop the
  leading zeros of a year below 1000; no trading day has such a year).
\<close>

definition strftime :: "nat \<times> nat \<times> nat \<Rightarrow> string" where
  "strftime ymd =
     (case ymd of (y, m, d) \<Rightarrow>
        [digit_char (y div 1000), digit_char (y div 100), digit_char (y div 10), digit_char y]
        @ ''-'' @ [digit_char (m div 10), digit_char m]
        @ ''-'' @ [digit_char (d div 10), digit_char d])"

definition month_later :: "string \<Rightarrow> error + string" where
  "month_later dt =
     (case strptime dt of
        Inl e \<Rightarrow> Inl e
      | Inr ymd \<Rightarrow> (case add_month ymd of Inl e \<Rightarrow> Inl e | Inr ymd' \<Rightarrow> Inr (strftime ymd')))"

section \<open>Simulation loop\<close>

text \<open>
  The local variables of \<^verbatim>\<open>simulate\<close> that live across iterations.  \<open>cur_date\<close>,
  \<open>cur_kxi\<close> and \<open>cur_xlp\<close> are the loop's \<^verbatim>\<open>date\<close>, \<^verbatim>\<open>kxi\<close> and \<^verbatim>\<open>xlp\<close>, which the
  closing code after the loop reads; they are unassigned (\<open>None\<close>) until an iteration
  assigns them.
\<close>

record sim_state =
  trade_log :: "LogRow list"
  stop_loss_date :: string
  long_pos :: Position
  short_pos :: Position
  cur_date :: "string option"
  cur_kxi :: "pyfloat option"
  cur_xlp :: "pyfloat option"

text \<open>The two calls of \<^verbatim>\<open>simulate\<close> that change ledger and positions, on the state.\<close>

definition sim_close :: "pyfloat \<Rightarrow> string \<Rightarrow> string \<Rightarrow> pyfloat \<Rightarrow> pyfloat \<Rightarrow> sim_state \<Rightarrow> error + sim_state" where
  "sim_close zeta reason dt kxi xlp st =
     (case close_positions (trade_log st) dt (short_pos st) (long_pos st) kxi xlp zeta reason of
        Inl e \<Rightarrow> Inl e
      | Inr (lg, sp, lp) \<Rightarrow> Inr (st\<lparr>trade_log := lg, short_pos := sp, long_pos := lp\<rparr>))"

definition sim_open :: "string \<Rightarrow> string \<Rightarrow> pyfloat \<Rightarrow> pyfloat \<Rightarrow> pyfloat \<Rightarrow> sim_state \<Rightarrow> error + sim_state" where
  "sim_open ptype_str dt kxi xlp cash st =
     (case open_positions (trade_log st) (short_pos st) (long_pos st) kxi xlp dt cash ptype_str of
        Inl e \<Rightarrow> Inl e
      | Inr (lg, sp, lp) \<Rightarrow> Inr (st\<lparr>trade_log := lg, short_pos := sp, long_pos := lp\<rparr>))"

text \<open>
  Entry in one direction (the body of \<^verbatim>\<open>if z > g\<close> with \<open>want = ''short''\<close>, of
  \<^verbatim>\<open>elif z < -g\<close> with \<open>want = ''long''\<close>): open when flat, hold when the pair already has
  the wanted type, otherwise close and reopen.  \<open>holds_kxi\<close> is the position whose name
  the source tests: the short one under \<^verbatim>\<open>z > g\<close>, the long one under \<^verbatim>\<open>z < -g\<close>.
\<close>

definition enter :: "pyfloat \<Rightarrow> string \<Rightarrow> Position \<Rightarrow> string \<Rightarrow> pyfloat \<Rightarrow> pyfloat \<Rightarrow> pyfloat \<Rightarrow> sim_state \<Rightarrow> error + sim_state" where
  "enter zeta want holds_kxi dt kxi xlp cash st =
     (if \<not> is_open (long_pos st) \<and> \<not> is_open (short_pos st)
      then sim_open want dt kxi xlp cash st
      else if name holds_kxi = ''kxi'' then Inr st
      else (case sim_close zeta reason_default dt kxi xlp st of
              Inl e \<Rightarrow> Inl e
            | Inr st' \<Rightarrow> sim_open want dt kxi xlp cash st'))"

text \<open>Step 4 of an iteration: the signal and the entry and exit conditions.\<close>

definition decide ::
  "Row list \<Rightarrow> pyfloat \<Rightarrow> pyfloat \<Rightarrow> int \<Rightarrow> pyfloat \<Rightarrow> sim_state \<Rightarrow> Row \<Rightarrow> error + sim_state" where
  "decide df g j M zeta st row =
     (let dt = row_date row; kxi = KXI_adj_close row; xlp = XLP_adj_close row;
          trade_cash = fdiv (N_t row) (Fin 100)
      in case get_mday_returns df row M of
           Inl e \<Rightarrow> Inl e
         | Inr rets \<Rightarrow>
             let z = fsub (fst rets) (snd rets)
             in if fgt (fabs z) g then
                  (if fgt z g then enter zeta ''short'' (short_pos st) dt kxi xlp trade_cash st
                   else if flt z (fneg g)
                     then enter zeta ''long'' (long_pos st) dt kxi xlp trade_cash st
                   else Inr st)
                else if flt (fabs z) j \<and> is_open (long_pos st) \<and> is_open (short_pos st)
                  then sim_close zeta reason_default dt kxi xlp st
                else Inr st)"

text \<open>One iteration of the loop over \<^verbatim>\<open>trading_df.iterrows()\<close>.\<close>

definition day ::
  "Row list \<Rightarrow> pyfloat \<Rightarrow> pyfloat \<Rightarrow> pyfloat option \<Rightarrow> int \<Rightarrow> pyfloat \<Rightarrow> sim_state \<Rightarrow> Row \<Rightarrow> error + sim_state" where
  "day df g j s M zeta st0 row =
     (let dt = row_date row; st1 = st0\<lparr>cur_date := Some dt\<rparr>
      in if dt < ''2022-01-01'' then Inr st1
         else if stop_loss_date st1 \<noteq> '''' \<and> dt \<noteq> stop_loss_date st1 then Inr st1
         else
           let kxi = KXI_adj_close row; xlp = XLP_adj_close row;
               st = st1\<lparr>stop_loss_date := '''', cur_kxi := Some kxi, cur_xlp := Some xlp\<rparr>
           in if is_open (long_pos st) \<and> is_open (short_pos st) then
                (case get_pnls (short_pos st) (long_pos st) kxi xlp zeta s of
                   Inl e \<Rightarrow> Inl e
                 | Inr pnl_res \<Rightarrow>
                     if \<not> fst pnl_res then
                       (case month_later dt of
                          Inl e \<Rightarrow> Inl e
                        | Inr sld \<Rightarrow>
                            sim_close zeta ''STOP LOSS'' dt kxi xlp (st\<lparr>stop_loss_date := sld\<rparr>))
                     else decide df g j M zeta st row)
              else decide df g j M zeta st row)"

fun sim_loop ::
  "Row list \<Rightarrow> pyfloat \<Rightarrow> pyfloat \<Rightarrow> pyfloat option \<Rightarrow> int \<Rightarrow> pyfloat \<Rightarrow> sim_state \<Rightarrow> Row list \<Rightarrow> error + sim_state" where
  "sim_loop df g j s M zeta st [] = Inr st"
| "sim_loop df g j s M zeta st (row # rows) =
     (case day df g j s M zeta st row of
        Inl e \<Rightarrow> Inl e
      | Inr st' \<Rightarrow> sim_loop df g j s M zeta st' rows)"

text \<open>The code after the loop: close what is still open, at the last assigned values.\<close>

definition finish :: "pyfloat \<Rightarrow> sim_state \<Rightarrow> error + sim_state" where
  "finish zeta st =
     (if is_open (short_pos st) \<or> is_open (long_pos st) then
        (case (cur_date st, cur_kxi st, cur_xlp st) of
           (Some dt, Some kxi, Some xlp) \<Rightarrow> sim_close zeta reason_default dt kxi xlp st
         | _ \<Rightarrow> Inl NameError)
      else Inr st)"

definition sim_init :: sim_state where
  "sim_init =
     \<lparr>trade_log = [], stop_loss_date = '''',
      long_pos = \<lparr>ptype = 1, name = '''', date = '''', entry_cash = NaN, price = NaN,
                  amount = NaN\<rparr>,
      short_pos = \<lparr>ptype = - 1, name = '''', date = '''', entry_cash = NaN, price = NaN,
                   amount = NaN\<rparr>,
      cur_date = None, cur_kxi = None, cur_xlp = None\<rparr>"

text \<open>
  \<^verbatim>\<open>simulate\<close> returns the ledger; \<open>simulate_state\<close> also shows the positions it leaves.
\<close>

definition simulate_state ::
  "Row list \<Rightarrow> pyfloat \<Rightarrow> pyfloat \<Rightarrow> pyfloat option \<Rightarrow> int \<Rightarrow> pyfloat \<Rightarrow> error + sim_state" where
  "simulate_state df g j s M zeta =
     (case sim_loop df g j s M zeta sim_init df of
        Inl e \<Rightarrow> Inl e
      | Inr st \<Rightarrow> finish zeta st)"

definition simulate ::
  "Row list \<Rightarrow> pyfloat \<Rightarrow> pyfloat \<Rightarrow> pyfloat option \<Rightarrow> int \<Rightarrow> pyfloat \<Rightarrow> error + LogRow list" where
  "simulate df g j s M zeta = map_sum id trade_log (simulate_state df g j s M zeta)"

section \<open>Derived notions\<close>

text \<open>
  The value of the local variable \<^verbatim>\<open>pnl\<close> of \<^verbatim>\<open>get_pnls\<close> before the stop-loss test:
  the short leg marked at the price \<^verbatim>\<open>find_short_long\<close> gives it, the long leg at the
  other price, the sum scaled by \<open>1 - zeta\<close>.
\<close>

definition total_pnl :: "Position \<Rightarrow> Position \<Rightarrow> pyfloat \<Rightarrow> pyfloat \<Rightarrow> pyfloat \<Rightarrow> pyfloat" where
  "total_pnl sp lp kxi xlp zeta =
     fmul (fadd (get_pnl sp (if name sp = ''kxi'' then kxi else xlp))
                (get_pnl lp (if name sp = ''kxi'' then xlp else kxi)))
          (fsub (Fin 1) zeta)"

text \<open>The fields \<^verbatim>\<open>Position.close\<close> leaves behind.\<close>

definition closed_of :: "Position \<Rightarrow> Position" where
  "closed_of p = p\<lparr>name := '''', date := '''', entry_cash := NaN, price := NaN, amount := NaN\<rparr>"

text \<open>
  A sample pair: 100 of cash per leg, the short leg 10 shares of kxi entered at 10, the
  long leg 5 shares of xlp entered at 20.
\<close>

definition sample_short :: Position where
  "sample_short = \<lparr>ptype = - 1, name = ''kxi'', date = ''2022-01-03'', entry_cash = Fin 100,
                   price = Fin 10, amount = Fin 10\<rparr>"

definition sample_long :: Position where
  "sample_long = \<lparr>ptype = 1, name = ''xlp'', date = ''2022-01-03'', entry_cash = Fin 100,
                  price = Fin 20, amount = Fin 5\<rparr>"

text \<open>The row \<^verbatim>\<open>close_positions\<close> appends for a pair of open legs.\<close>

definition close_row :: "string \<Rightarrow> Position \<Rightarrow> Position \<Rightarrow> pyfloat \<Rightarrow> pyfloat \<Rightarrow> pyfloat \<Rightarrow> string \<Rightarrow> LogRow" where
  "close_row dt sp lp kxi xlp zeta reason =
     \<lparr>log_date = dt, position_status = ''CLOSE'',
      position_type = (if name sp = ''kxi'' then ''short'' else ''long''),
      gross_cash = fmul (entry_cash sp) (Fin 2),
      pnl = total_pnl sp lp kxi xlp zeta,
      kxi_price = kxi,
      kxi_amount = (if name sp = ''kxi'' then amount sp else amount lp),
      xlp_price = xlp,
      xlp_amount = (if name sp = ''kxi'' then amount lp else amount sp),
      Reason = Some reason\<rparr>"

text \<open>
  The row \<^verbatim>\<open>open_positions\<close> appends, given the two positions it has opened, and the
  fields \<^verbatim>\<open>Position.open\<close> sets for finite cash and a finite price.
\<close>

definition open_row :: "string \<Rightarrow> string \<Rightarrow> pyfloat \<Rightarrow> pyfloat \<Rightarrow> pyfloat \<Rightarrow> Position \<Rightarrow> Position \<Rightarrow> LogRow" where
  "open_row dt want kxi xlp cash sp lp =
     \<lparr>log_date = dt, position_status = ''OPEN'', position_type = want,
      gross_cash = fmul cash (Fin 2), pnl = NaN, kxi_price = kxi,
      kxi_amount = (if want = ''long'' then amount lp else amount sp),
      xlp_price = xlp,
      xlp_amount = (if want = ''long'' then amount sp else amount lp),
      Reason = None\<rparr>"

definition opened :: "Position \<Rightarrow> string \<Rightarrow> string \<Rightarrow> real \<Rightarrow> real \<Rightarrow> Position" where
  "opened p nm dt c q =
     p\<lparr>name := nm, date := dt, entry_cash := Fin c, price := Fin q,
       amount := Fin (of_int (py_round (c / q)))\<rparr>"

text \<open>
  The pair invariant of the simulation: the two positions are open together or closed
  together, and when open they hold the two instruments, one each.
\<close>

definition pair_inv :: "sim_state \<Rightarrow> bool" where
  "pair_inv st =
     ((is_open (long_pos st) \<longleftrightarrow> is_open (short_pos st))
      \<and> (is_open (long_pos st) \<longrightarrow>
            {name (long_pos st), name (short_pos st)} = {''kxi'', ''xlp''}))"

text \<open>With an open pair the loop has assigned the prices the closing code reads.\<close>

definition loop_inv :: "sim_state \<Rightarrow> bool" where
  "loop_inv st =
     (pair_inv st
      \<and> (is_open (long_pos st) \<longrightarrow> cur_kxi st \<noteq> None \<and> cur_xlp st \<noteq> None))"

text \<open>
  The state of an iteration that is evaluated, after its assignments to \<^verbatim>\<open>date\<close>,
  \<^verbatim>\<open>stop_loss_date\<close>, \<^verbatim>\<open>kxi\<close> and \<^verbatim>\<open>xlp\<close>.
\<close>

definition today :: "sim_state \<Rightarrow> Row \<Rightarrow> sim_state" where
  "today st row =
     st\<lparr>cur_date := Some (row_date row), stop_loss_date := '''',
        cur_kxi := Some (KXI_adj_close row), cur_xlp := Some (XLP_adj_close row)\<rparr>"

text \<open>
  A sample series of five days: two before the activation date, then a pair opened on
  the third day (kxi has gained 10 per cent over one day, xlp nothing) and held on the
  last two.  \<open>sample_state\<close> is the state after the third day; \<open>next_day k\<close> is a fourth
  day with kxi at \<open>k\<close>, and \<open>two_days k\<close> the series of the third day and that one.
\<close>

definition sample_series :: "Row list" where
  "sample_series =
     [\<lparr>row_date = ''2021-12-30'', KXI_adj_close = Fin 10, XLP_adj_close = Fin 20,
       N_t = Fin 10000\<rparr>,
      \<lparr>row_date = ''2021-12-31'', KXI_adj_close = Fin 10, XLP_adj_close = Fin 20,
       N_t = Fin 10000\<rparr>,
      \<lparr>row_date = ''2022-01-03'', KXI_adj_close = Fin 11, XLP_adj_close = Fin 20,
       N_t = Fin 10000\<rparr>,
      \<lparr>row_date = ''2022-01-04'', KXI_adj_close = Fin (113 / 10), XLP_adj_close = Fin 20,
       N_t = Fin 10000\<rparr>,
      \<lparr>row_date = ''2022-01-05'', KXI_adj_close = Fin (116 / 10), XLP_adj_close = Fin 20,
       N_t = Fin 10000\<rparr>]"

definition sample_state :: sim_state where
  "sample_state =
     \<lparr>trade_log =
        [\<lparr>log_date = ''2022-01-03'', position_status = ''OPEN'', position_type = ''short'',
          gross_cash = Fin 200, pnl = NaN, kxi_price = Fin 11, kxi_amount = Fin 9,
          xlp_price = Fin 20, xlp_amount = Fin 5, Reason = None\<rparr>],
      stop_loss_date = '''',
      long_pos = \<lparr>ptype = 1, name = ''xlp'', date = ''2022-01-03'', entry_cash = Fin 100,
                  price = Fin 20, amount = Fin 5\<rparr>,
      short_pos = \<lparr>ptype = - 1, name = ''kxi'', date = ''2022-01-03'', entry_cash = Fin 100,
                   price = Fin 11, amount = Fin 9\<rparr>,
      cur_date = Some ''2022-01-03'', cur_kxi = Some (Fin 11), cur_xlp = Some (Fin 20)\<rparr>"

definition next_day :: "real \<Rightarrow> Row" where
  "next_day k =
     \<lparr>row_date = ''2022-01-04'', KXI_adj_close = Fin k, XLP_adj_close = Fin 20,
      N_t = Fin 10000\<rparr>"

definition two_days :: "real \<Rightarrow> Row list" where
  "two_days k =
     [\<lparr>row_date = ''2022-01-03'', KXI_adj_close = Fin 11, XLP_adj_close = Fin 20,
       N_t = Fin 10000\<rparr>, next_day k]"

text \<open>The inverse of \<open>split_dash\<close>, used to reason about parsed dates.\<close>

fun join_dash :: "string list \<Rightarrow> string" where
  "join_dash [] = []"
| "join_dash [w] = w"
| "join_dash (w # ws) = w @ CHR ''-'' # join_dash ws"

text \<open>A later day of the sample, with kxi at 14, on a given date.\<close>

definition later_day :: "string \<Rightarrow> Row" where
  "later_day dt =
     \<lparr>row_date = dt, KXI_adj_close = Fin 14, XLP_adj_close = Fin 20, N_t = Fin 10000\<rparr>"

text \<open>
  The first three days of the sample series followed by the fourth day \<open>next_day k\<close>.
  With kxi at 14 the short leg on kxi loses 26 of the gross cash of 200.
\<close>

definition four_days :: "real \<Rightarrow> Row list" where
  "four_days k = take 3 sample_series @ [next_day k]"

section \<open>Basic facts\<close>

lemma fsub_Fin: "fsub (Fin x) (Fin y) = Fin (x - y)"
  by (simp add: fsub_def)

lemma fsub_NaN: "fsub a NaN = NaN"
  by (cases a) (simp_all add: fsub_def)

lemma fmul_one_right: "fmul a (Fin 1) = a"
  by (cases a) (simp_all add: inf_of_sign_def)

lemma fmul_two_commute: "fmul a (Fin 2) = fmul (Fin 2) a"
  by (cases a) (simp_all add: inf_of_sign_def mult.commute)

lemma py_round_of_int: "py_round (of_int k) = k"
  by (simp add: py_round_def)

lemma py_round_fixed_iff: "real_of_int (py_round x) = x \<longleftrightarrow> x \<in> \<int>"
proof
  assume "real_of_int (py_round x) = x"
  then show "x \<in> \<int>" by (metis Ints_of_int)
next
  assume "x \<in> \<int>"
  then obtain k where "x = of_int k" by (auto elim: Ints_cases)
  then show "real_of_int (py_round x) = x" by (simp add: py_round_of_int)
qed

lemma truthy_iff: "truthy s \<longleftrightarrow> s \<noteq> None \<and> s \<noteq> Some (Fin 0)"
  by (cases s rule: truthy.cases) auto

lemma is_open_closed_of: "\<not> is_open (closed_of p)"
  by (simp add: is_open_def closed_of_def)

lemma get_pnl_closed: "get_pnl (closed_of p) q = NaN"
  by (simp add: get_pnl_def closed_of_def fsub_NaN)

lemma Position_close_open: "is_open p \<Longrightarrow> Position_close p pr = Inr (get_pnl p pr, closed_of p)"
  by (simp add: Position_close_def closed_of_def)

lemma get_pnls_open:
  "is_open sp \<Longrightarrow> is_open lp \<Longrightarrow>
   get_pnls sp lp kxi xlp zeta s =
     (if flt (total_pnl sp lp kxi xlp zeta) (Fin 0) \<and> truthy s
         \<and> fgt (fdiv (fabs (total_pnl sp lp kxi xlp zeta)) (fmul (entry_cash sp) (Fin 2))) (the s)
      then Inr (False, Fin 0) else Inr (True, total_pnl sp lp kxi xlp zeta))"
  by (simp add: get_pnls_def total_pnl_def find_short_long_def Let_def)

lemma get_pnls_None:
  "is_open sp \<Longrightarrow> is_open lp \<Longrightarrow>
   get_pnls sp lp kxi xlp zeta None = Inr (True, total_pnl sp lp kxi xlp zeta)"
  by (simp add: get_pnls_open)

lemma get_pnls_not_open:
  "\<not> is_open sp \<or> \<not> is_open lp \<Longrightarrow> get_pnls sp lp kxi xlp zeta s = Inl AssertionError"
  by (auto simp add: get_pnls_def)

lemma sample_open: "is_open sample_short" "is_open sample_long"
  by (simp_all add: is_open_def sample_short_def sample_long_def)

lemma sample_total_12: "total_pnl sample_short sample_long (Fin 12) (Fin 20) (Fin 0) = Fin (- 20)"
  by (simp add: total_pnl_def sample_short_def sample_long_def get_pnl_def fsub_Fin)

lemma sample_total_13: "total_pnl sample_short sample_long (Fin 13) (Fin 20) (Fin 0) = Fin (- 30)"
  by (simp add: total_pnl_def sample_short_def sample_long_def get_pnl_def fsub_Fin)

lemma sample_entry_cash: "entry_cash sample_short = Fin 100"
  by (simp add: sample_short_def)

section \<open>Facts about the pair operations and the loop\<close>

lemma close_positions_open:
  "is_open sp \<Longrightarrow> is_open lp \<Longrightarrow>
   close_positions lg dt sp lp kxi xlp zeta reason
     = Inr (lg @ [close_row dt sp lp kxi xlp zeta reason], closed_of sp, closed_of lp)"
  by (simp add: close_positions_def get_pnls_None Position_close_open close_row_def Let_def)

lemma close_positions_not_open:
  "\<not> is_open sp \<or> \<not> is_open lp \<Longrightarrow>
   close_positions lg dt sp lp kxi xlp zeta reason = Inl AssertionError"
  by (simp add: close_positions_def get_pnls_not_open Let_def)

lemma pair_inv_iff:
  "pair_inv st \<longleftrightarrow>
     name (long_pos st) = '''' \<and> name (short_pos st) = ''''
     \<or> name (long_pos st) = ''kxi'' \<and> name (short_pos st) = ''xlp''
     \<or> name (long_pos st) = ''xlp'' \<and> name (short_pos st) = ''kxi''"
  by (auto simp: pair_inv_def is_open_def doubleton_eq_iff)

lemma sim_close_open:
  "is_open (short_pos st) \<Longrightarrow> is_open (long_pos st) \<Longrightarrow>
   sim_close zeta reason dt kxi xlp st
     = Inr (st\<lparr>trade_log := trade_log st
                   @ [close_row dt (short_pos st) (long_pos st) kxi xlp zeta reason],
               short_pos := closed_of (short_pos st), long_pos := closed_of (long_pos st)\<rparr>)"
  by (simp add: sim_close_def close_positions_open)

lemma sim_close_Inr:
  assumes "sim_close zeta reason dt kxi xlp st = Inr st'"
  shows "st' = st\<lparr>trade_log := trade_log st
                   @ [close_row dt (short_pos st) (long_pos st) kxi xlp zeta reason],
               short_pos := closed_of (short_pos st), long_pos := closed_of (long_pos st)\<rparr>"
proof (cases "is_open (short_pos st) \<and> is_open (long_pos st)")
  case True
  then show ?thesis using assms by (simp add: sim_close_open)
next
  case False
  then have "sim_close zeta reason dt kxi xlp st = Inl AssertionError"
    by (simp add: sim_close_def close_positions_not_open)
  then show ?thesis using assms by simp
qed

lemma Position_open_Inr:
  assumes "Position_open p nm dt cash pr = Inr p'"
  shows "name p' = nm \<and> nm \<in> {''kxi'', ''xlp''} \<and> \<not> is_open p \<and> date p' = dt
       \<and> entry_cash p' = cash \<and> price p' = pr \<and> ptype p' = ptype p"
  using assms by (auto simp: Position_open_def split: if_splits sum.splits)

lemma Position_open_Fin:
  "\<not> is_open p \<Longrightarrow> nm \<in> {''kxi'', ''xlp''} \<Longrightarrow> q \<noteq> 0 \<Longrightarrow>
   Position_open p nm dt (Fin c) (Fin q)
     = Inr (p\<lparr>name := nm, date := dt, entry_cash := Fin c, price := Fin q,
              amount := Fin (of_int (py_round (c / q)))\<rparr>)"
  by (simp add: Position_open_def)

lemma sim_open_Inr:
  assumes "sim_open want dt kxi xlp cash st = Inr st'"
  shows "want \<in> {''short'', ''long''}
       \<and> name (long_pos st') = (if want = ''long'' then ''kxi'' else ''xlp'')
       \<and> name (short_pos st') = (if want = ''long'' then ''xlp'' else ''kxi'')
       \<and> (\<exists>r. trade_log st' = trade_log st @ [r])
       \<and> stop_loss_date st' = stop_loss_date st \<and> cur_date st' = cur_date st
       \<and> cur_kxi st' = cur_kxi st \<and> cur_xlp st' = cur_xlp st"
  using assms
  by (auto simp: sim_open_def open_positions_def Let_def
      split: if_splits sum.splits prod.splits dest!: Position_open_Inr)

lemma sim_open_pair_inv: "sim_open want dt kxi xlp cash st = Inr st' \<Longrightarrow> pair_inv st'"
  by (drule sim_open_Inr) (auto simp: pair_inv_iff)

lemma sim_close_pair_inv: "sim_close zeta reason dt kxi xlp st = Inr st' \<Longrightarrow> pair_inv st'"
  by (drule sim_close_Inr) (simp add: pair_inv_iff closed_of_def)

lemma enter_pair_inv:
  "pair_inv st \<Longrightarrow> enter zeta want h dt kxi xlp cash st = Inr st' \<Longrightarrow> pair_inv st'"
  by (auto simp: enter_def split: if_splits sum.splits dest: sim_open_pair_inv)

lemma decide_pair_inv:
  "pair_inv st \<Longrightarrow> decide df g j M zeta st row = Inr st' \<Longrightarrow> pair_inv st'"
  by (auto simp: decide_def Let_def split: if_splits sum.splits
      dest: enter_pair_inv sim_close_pair_inv)

lemma pair_inv_update [simp]:
  "pair_inv (st\<lparr>cur_date := a\<rparr>) = pair_inv st"
  "pair_inv (st\<lparr>cur_kxi := b\<rparr>) = pair_inv st"
  "pair_inv (st\<lparr>cur_xlp := c\<rparr>) = pair_inv st"
  "pair_inv (st\<lparr>stop_loss_date := d\<rparr>) = pair_inv st"
  by (simp_all add: pair_inv_def)

lemma day_pair_inv:
  "pair_inv st \<Longrightarrow> day df g j s M zeta st row = Inr st' \<Longrightarrow> pair_inv st'"
  by (auto simp: day_def Let_def split: if_splits sum.splits
      dest: decide_pair_inv [rotated] sim_close_pair_inv)

lemma sim_loop_pair_inv:
  "pair_inv st \<Longrightarrow> sim_loop df g j s M zeta st rows = Inr st' \<Longrightarrow> pair_inv st'"
proof (induction rows arbitrary: st)
  case Nil
  then show ?case by simp
next
  case (Cons row rows)
  then show ?case by (auto split: sum.splits dest: day_pair_inv)
qed

lemma pair_inv_init: "pair_inv sim_init"
  by (simp add: pair_inv_iff sim_init_def)

text \<open>What an iteration leaves of the loop variables.\<close>

lemma sim_open_frame:
  "sim_open want dt kxi xlp cash st = Inr st' \<Longrightarrow>
   cur_date st' = cur_date st \<and> cur_kxi st' = cur_kxi st \<and> cur_xlp st' = cur_xlp st"
  by (drule sim_open_Inr) simp

lemma sim_close_frame:
  "sim_close zeta reason dt kxi xlp st = Inr st' \<Longrightarrow>
   cur_date st' = cur_date st \<and> cur_kxi st' = cur_kxi st \<and> cur_xlp st' = cur_xlp st"
  by (drule sim_close_Inr) simp

lemma enter_frame:
  "enter zeta want h dt kxi xlp cash st = Inr st' \<Longrightarrow>
   cur_date st' = cur_date st \<and> cur_kxi st' = cur_kxi st \<and> cur_xlp st' = cur_xlp st"
  by (auto simp: enter_def split: if_splits sum.splits dest!: sim_open_frame sim_close_frame)

lemma decide_frame:
  "decide df g j M zeta st row = Inr st' \<Longrightarrow>
   cur_date st' = cur_date st \<and> cur_kxi st' = cur_kxi st \<and> cur_xlp st' = cur_xlp st"
  by (auto simp: decide_def Let_def split: if_splits sum.splits
      dest!: enter_frame sim_close_frame)

lemma day_skip:
  "row_date row < ''2022-01-01''
     \<or> stop_loss_date st \<noteq> '''' \<and> row_date row \<noteq> stop_loss_date st \<Longrightarrow>
   day df g j s M zeta st row = Inr (st\<lparr>cur_date := Some (row_date row)\<rparr>)"
  by (auto simp: day_def Let_def)

lemma day_frame:
  assumes "day df g j s M zeta st row = Inr st'"
  shows "cur_date st' = Some (row_date row)
     \<and> (long_pos st' = long_pos st \<and> short_pos st' = short_pos st
          \<and> cur_kxi st' = cur_kxi st \<and> cur_xlp st' = cur_xlp st
        \<or> cur_kxi st' \<noteq> None \<and> cur_xlp st' \<noteq> None)"
  using assms
  by (auto simp: day_def Let_def split: if_splits sum.splits
      dest!: decide_frame sim_close_frame)

lemma day_loop_inv:
  assumes "loop_inv st" and "day df g j s M zeta st row = Inr st'"
  shows "loop_inv st'"
  using day_frame [OF assms(2)] day_pair_inv [OF _ assms(2)] assms(1)
  by (auto simp: loop_inv_def)

lemma sim_loop_inv:
  "loop_inv st \<Longrightarrow> sim_loop df g j s M zeta st rows = Inr st' \<Longrightarrow> loop_inv st'"
proof (induction rows arbitrary: st)
  case Nil
  then show ?case by simp
next
  case (Cons row rows)
  then show ?case by (auto split: sum.splits dest: day_loop_inv)
qed

lemma sim_loop_cur_date:
  "rows \<noteq> [] \<Longrightarrow> sim_loop df g j s M zeta st rows = Inr st' \<Longrightarrow>
   cur_date st' = Some (row_date (last rows))"
proof (induction rows arbitrary: st)
  case Nil
  then show ?case by simp
next
  case (Cons row rows)
  from Cons.prems(2) obtain st1 where d: "day df g j s M zeta st row = Inr st1"
    and l: "sim_loop df g j s M zeta st1 rows = Inr st'"
    by (auto split: sum.splits)
  show ?case
  proof (cases rows)
    case Nil
    with d l show ?thesis by (auto dest: day_frame)
  next
    case (Cons r rs)
    with Cons.IH [OF _ l] show ?thesis by simp
  qed
qed

lemma loop_inv_init: "loop_inv sim_init"
  by (simp add: loop_inv_def pair_inv_init) (simp add: sim_init_def is_open_def)

lemma finish_closed:
  "\<not> is_open (short_pos st) \<Longrightarrow> \<not> is_open (long_pos st) \<Longrightarrow> finish zeta st = Inr st"
  by (simp add: finish_def)

lemma finish_open:
  assumes "loop_inv st" and "is_open (long_pos st) \<or> is_open (short_pos st)"
    and "cur_date st = Some dt"
  shows "\<exists>kxi xlp. cur_kxi st = Some kxi \<and> cur_xlp st = Some xlp
     \<and> finish zeta st
       = Inr (st\<lparr>trade_log := trade_log st
                     @ [close_row dt (short_pos st) (long_pos st) kxi xlp zeta reason_default],
                 short_pos := closed_of (short_pos st), long_pos := closed_of (long_pos st)\<rparr>)"
proof -
  from assms(1,2) have o: "is_open (long_pos st)" "is_open (short_pos st)"
    by (auto simp: loop_inv_def pair_inv_def)
  with assms(1) obtain kxi xlp where v: "cur_kxi st = Some kxi" "cur_xlp st = Some xlp"
    by (auto simp: loop_inv_def)
  show ?thesis
    using o v assms(3) by (simp add: finish_def sim_close_open)
qed

lemma today_simps [simp]:
  "trade_log (today st row) = trade_log st"
  "long_pos (today st row) = long_pos st"
  "short_pos (today st row) = short_pos st"
  "stop_loss_date (today st row) = ''''"
  "cur_date (today st row) = Some (row_date row)"
  by (simp_all add: today_def)

lemma pair_inv_today [simp]: "pair_inv (today st row) = pair_inv st"
  by (simp add: pair_inv_def)

lemma day_eval:
  assumes "\<not> row_date row < ''2022-01-01''"
    and "stop_loss_date st = '''' \<or> row_date row = stop_loss_date st"
  shows "day df g j s M zeta st row =
     (if is_open (long_pos st) \<and> is_open (short_pos st) then
        (case get_pnls (short_pos st) (long_pos st) (KXI_adj_close row) (XLP_adj_close row)
                zeta s of
           Inl e \<Rightarrow> Inl e
         | Inr pnl_res \<Rightarrow>
             if \<not> fst pnl_res then
               (case month_later (row_date row) of
                  Inl e \<Rightarrow> Inl e
                | Inr sld \<Rightarrow>
                    sim_close zeta ''STOP LOSS'' (row_date row) (KXI_adj_close row)
                      (XLP_adj_close row) ((today st row)\<lparr>stop_loss_date := sld\<rparr>))
             else decide df g j M zeta (today st row) row)
      else decide df g j M zeta (today st row) row)"
  using assms by (auto simp: day_def Let_def today_def split: sum.splits)

lemma fgt_abs_cases: "fgt (fabs z) g \<Longrightarrow> fgt z g \<or> flt z (fneg g)"
  by (cases z; cases g) (auto simp: fgt_def)

lemma fgt_sign: "fgt (fabs z) g \<Longrightarrow> \<not> flt g (Fin 0) \<Longrightarrow> fgt z g \<longleftrightarrow> flt (Fin 0) z"
  by (cases z; cases g) (auto simp: fgt_def)

lemma decide_entry:
  assumes "get_mday_returns df row M = Inr (rk, rx)" and "fgt (fabs (fsub rk rx)) g"
  shows "decide df g j M zeta st row =
     (if fgt (fsub rk rx) g
      then enter zeta ''short'' (short_pos st) (row_date row) (KXI_adj_close row)
             (XLP_adj_close row) (fdiv (N_t row) (Fin 100)) st
      else enter zeta ''long'' (long_pos st) (row_date row) (KXI_adj_close row)
             (XLP_adj_close row) (fdiv (N_t row) (Fin 100)) st)"
  using assms fgt_abs_cases [OF assms(2)] by (auto simp: decide_def Let_def)

lemma sim_open_Fin:
  assumes "\<not> is_open (long_pos st)" and "\<not> is_open (short_pos st)"
    and "want \<in> {''short'', ''long''}" and "k \<noteq> 0" and "x \<noteq> 0"
  shows "sim_open want dt (Fin k) (Fin x) (Fin c) st =
     (let lp = (if want = ''long'' then opened (long_pos st) ''kxi'' dt c k
                else opened (long_pos st) ''xlp'' dt c x);
          sp = (if want = ''long'' then opened (short_pos st) ''xlp'' dt c x
                else opened (short_pos st) ''kxi'' dt c k)
      in Inr (st\<lparr>trade_log := trade_log st @ [open_row dt want (Fin k) (Fin x) (Fin c) sp lp],
                 short_pos := sp, long_pos := lp\<rparr>))"
  using assms
  by (auto simp: sim_open_def open_positions_def Position_open_Fin opened_def open_row_def Let_def)

lemma enter_hold:
  "is_open (long_pos st) \<or> is_open (short_pos st) \<Longrightarrow> name h = ''kxi'' \<Longrightarrow>
   enter zeta want h dt kxi xlp cash st = Inr st"
  by (auto simp: enter_def)

lemma enter_flip:
  assumes "is_open (long_pos st)" and "is_open (short_pos st)" and "name h \<noteq> ''kxi''"
    and "want \<in> {''short'', ''long''}" and "k \<noteq> 0" and "x \<noteq> 0"
  shows "enter zeta want h dt (Fin k) (Fin x) (Fin c) st =
     (let lp = (if want = ''long'' then opened (closed_of (long_pos st)) ''kxi'' dt c k
                else opened (closed_of (long_pos st)) ''xlp'' dt c x);
          sp = (if want = ''long'' then opened (closed_of (short_pos st)) ''xlp'' dt c x
                else opened (closed_of (short_pos st)) ''kxi'' dt c k)
      in Inr (st\<lparr>trade_log := trade_log st
                   @ [close_row dt (short_pos st) (long_pos st) (Fin k) (Fin x) zeta
                        reason_default,
                      open_row dt want (Fin k) (Fin x) (Fin c) sp lp],
                 short_pos := sp, long_pos := lp\<rparr>))"
proof -
  let ?st1 = "st\<lparr>trade_log := trade_log st
                   @ [close_row dt (short_pos st) (long_pos st) (Fin k) (Fin x) zeta
                        reason_default],
               short_pos := closed_of (short_pos st), long_pos := closed_of (long_pos st)\<rparr>"
  have c: "sim_close zeta reason_default dt (Fin k) (Fin x) st = Inr ?st1"
    using assms(1,2) by (simp add: sim_close_open)
  have o: "\<not> is_open (long_pos ?st1)" "\<not> is_open (short_pos ?st1)"
    by (simp_all add: is_open_closed_of)
  show ?thesis
    using assms(1,3)
    by (simp add: enter_def c sim_open_Fin [OF o assms(4,5,6)] Let_def)
qed

lemma opened_simps [simp]:
  "name (opened p nm dt c q) = nm" "date (opened p nm dt c q) = dt"
  "price (opened p nm dt c q) = Fin q" "entry_cash (opened p nm dt c q) = Fin c"
  "amount (opened p nm dt c q) = Fin (of_int (py_round (c / q)))"
  by (simp_all add: opened_def)

lemma fdiv_Fin_100: "fdiv (Fin n) (Fin 100) = Fin (n / 100)"
  by simp


text \<open>The sample series and the sample state, evaluated.\<close>

lemma sample_loop:
  "sim_loop sample_series (Fin (1 / 20)) (Fin (1 / 100)) (Some (Fin (1 / 10))) 1 (Fin 0)
     sim_init sample_series
   = Inr (sample_state\<lparr>cur_date := Some ''2022-01-05'', cur_kxi := Some (Fin (58 / 5))\<rparr>)"
  by code_simp

lemma sample_loop_3:
  "sim_loop sample_series (Fin (1 / 20)) (Fin (1 / 100)) (Some (Fin (1 / 10))) 1 (Fin 0)
     sim_init (take 3 sample_series) = Inr sample_state"
  by code_simp

lemma sample_loop_warm_up:
  "sim_loop (take 2 sample_series) (Fin (1 / 20)) (Fin (1 / 100)) (Some (Fin (1 / 10))) 1 (Fin 0)
     sim_init (take 2 sample_series) = Inr (sim_init\<lparr>cur_date := Some ''2021-12-31''\<rparr>)"
  by code_simp

lemma sample_state_facts:
  "pair_inv sample_state" "is_open (long_pos sample_state)" "is_open (short_pos sample_state)"
  "stop_loss_date sample_state = ''''" "name (short_pos sample_state) = ''kxi''"
  by (simp_all add: pair_inv_iff is_open_def sample_state_def)

lemma next_day_facts:
  "\<not> row_date (next_day k) < ''2022-01-01''" "row_date (next_day k) = ''2022-01-04''"
  "KXI_adj_close (next_day k) = Fin k" "XLP_adj_close (next_day k) = Fin 20"
  "N_t (next_day k) = Fin 10000"
  by (simp_all add: next_day_def less_char_def)

lemma sample_returns:
  "get_mday_returns (two_days 10) (next_day 10) 1 = Inr (Fin (- 1 / 11), Fin 0)"
  "get_mday_returns (two_days 12) (next_day 12) 1 = Inr (Fin (1 / 11), Fin 0)"
  by code_simp+

lemma sample_checks:
  "get_pnls (short_pos sample_state) (long_pos sample_state) (Fin 10) (Fin 20) (Fin 0)
     (Some (Fin (1 / 10))) = Inr (True, Fin 10)"
  "get_pnls (short_pos sample_state) (long_pos sample_state) (Fin 12) (Fin 20) (Fin 0)
     (Some (Fin (1 / 10))) = Inr (True, Fin (- 8))"
  "get_pnls (short_pos sample_state) (long_pos sample_state) (Fin 14) (Fin 20) (Fin 0)
     (Some (Fin (1 / 10))) = Inr (False, Fin 0)"
  by code_simp+

lemma sample_month: "month_later ''2022-01-04'' = Inr ''2022-02-04''"
  by code_simp

text \<open>A cool-down is never active while a leg is open.\<close>

lemma decide_stop_loss_date:
  "decide df g j M zeta st row = Inr st' \<Longrightarrow> stop_loss_date st' = stop_loss_date st"
  by (auto simp: decide_def enter_def Let_def split: if_splits sum.splits
      dest!: sim_open_Inr sim_close_Inr)

lemma day_cool_down_closed:
  assumes "stop_loss_date st \<noteq> [] \<longrightarrow> \<not> is_open (long_pos st) \<and> \<not> is_open (short_pos st)"
    and "day df g j s M zeta st row = Inr st'"
  shows "stop_loss_date st' \<noteq> [] \<longrightarrow> \<not> is_open (long_pos st') \<and> \<not> is_open (short_pos st')"
proof (cases "row_date row < ''2022-01-01''
    \<or> stop_loss_date st \<noteq> [] \<and> row_date row \<noteq> stop_loss_date st")
  case True
  from day_skip [OF True, of df g j s M zeta] assms show ?thesis by auto
next
  case False
  then have nw: "\<not> row_date row < ''2022-01-01''"
    and ncd: "stop_loss_date st = [] \<or> row_date row = stop_loss_date st"
    by auto
  from assms(2) show ?thesis
    unfolding day_eval [OF nw ncd]
    by (auto split: if_splits sum.splits dest!: decide_stop_loss_date sim_close_Inr
        simp: is_open_closed_of)
qed

lemma sim_loop_cool_down_closed:
  assumes "stop_loss_date st \<noteq> [] \<longrightarrow> \<not> is_open (long_pos st) \<and> \<not> is_open (short_pos st)"
    and "sim_loop df g j s M zeta st rows = Inr st'"
  shows "stop_loss_date st' \<noteq> [] \<longrightarrow> \<not> is_open (long_pos st') \<and> \<not> is_open (short_pos st')"
  using assms
proof (induction rows arbitrary: st)
  case Nil
  then show ?case by simp
next
  case (Cons row rows)
  from Cons.prems(2) obtain st1 where d: "day df g j s M zeta st row = Inr st1"
    and l: "sim_loop df g j s M zeta st1 rows = Inr st'"
    by (auto split: sum.splits)
  from day_cool_down_closed [OF Cons.prems(1) d] l show ?case by (rule Cons.IH)
qed

lemma open_pair_no_cool_down:
  assumes "sim_loop df g j s M zeta sim_init rows = Inr st" and "is_open (long_pos st)"
  shows "stop_loss_date st = []"
proof -
  have "stop_loss_date sim_init \<noteq> [] \<longrightarrow>
      \<not> is_open (long_pos sim_init) \<and> \<not> is_open (short_pos sim_init)"
    by (simp add: sim_init_def)
  from sim_loop_cool_down_closed [OF this assms(1)] assms(2) show ?thesis by auto
qed

text \<open>The pairs the program builds hold the two instruments, one each.\<close>

lemma open_positions_names:
  "open_positions lg sp0 lp0 kxi xlp dt cash want = Inr (lg', sp, lp) \<Longrightarrow>
   {name sp, name lp} = {''kxi'', ''xlp''}"
  by (auto simp: open_positions_def Let_def split: if_splits sum.splits
      dest!: Position_open_Inr)

lemma reachable_pair_names:
  assumes "sim_loop df g j s M zeta sim_init rows = Inr st"
    and "is_open (long_pos st) \<or> is_open (short_pos st)"
  shows "{name (short_pos st), name (long_pos st)} = {''kxi'', ''xlp''}"
  using sim_loop_pair_inv [OF pair_inv_init assms(1)] assms(2)
  by (auto simp: pair_inv_iff is_open_def)

text \<open>The sample state is the state of a run after three days; the fourth day.\<close>

lemma four_days_loop:
  "sim_loop (four_days 10) (Fin (1 / 20)) (Fin (1 / 100)) (Some (Fin (1 / 10))) 1 (Fin 0)
     sim_init (take 3 (four_days 10)) = Inr sample_state"
  "sim_loop (four_days 12) (Fin (1 / 20)) (Fin (1 / 100)) (Some (Fin (1 / 10))) 1 (Fin 0)
     sim_init (take 3 (four_days 12)) = Inr sample_state"
  "sim_loop (four_days 14) (Fin (1 / 20)) (Fin (1 / 100)) (Some (Fin (1 / 10))) 1 (Fin 0)
     sim_init (take 3 (four_days 14)) = Inr sample_state"
  by code_simp+

lemma four_days_returns:
  "get_mday_returns (four_days 10) (next_day 10) 1 = Inr (Fin (- 1 / 11), Fin 0)"
  "get_mday_returns (four_days 12) (next_day 12) 1 = Inr (Fin (1 / 11), Fin 0)"
  "get_mday_returns (four_days 14) (next_day 14) 1 = Inr (Fin (3 / 11), Fin 0)"
  by code_simp+

lemma four_days_stop:
  "day (four_days 14) (Fin (1 / 20)) (Fin (1 / 100)) (Some (Fin (1 / 10))) 1 (Fin 0)
     sample_state (next_day 14)
   = Inr (sample_state
        \<lparr>trade_log := trade_log sample_state
           @ [\<lparr>log_date = ''2022-01-04'', position_status = ''CLOSE'',
                position_type = ''short'', gross_cash = Fin 200, pnl = Fin (- 26),
                kxi_price = Fin 14, kxi_amount = Fin 9, xlp_price = Fin 20,
                xlp_amount = Fin 5, Reason = Some ''STOP LOSS''\<rparr>],
         stop_loss_date := ''2022-02-04'',
         long_pos := closed_of (long_pos sample_state),
         short_pos := closed_of (short_pos sample_state),
         cur_date := Some ''2022-01-04'', cur_kxi := Some (Fin 14)\<rparr>)"
  by code_simp

section \<open>Facts about the calendar arithmetic\<close>

lemma split_dash_join: "split_dash s \<noteq> [] \<and> join_dash (split_dash s) = s"
proof (induction s)
  case Nil
  show ?case by simp
next
  case (Cons c cs)
  then obtain w ws where w: "split_dash cs = w # ws" by (cases "split_dash cs") auto
  with Cons show ?case by (cases ws) auto
qed

lemma is_digit_range:
  "is_digit c \<Longrightarrow> 48 \<le> (of_char c :: nat) \<and> (of_char c :: nat) \<le> 57"
  by (auto simp: is_digit_def)

lemma digit_less_iff:
  "is_digit a \<Longrightarrow> is_digit b \<Longrightarrow> a < b \<longleftrightarrow> digit_val a < digit_val b"
proof -
  assume d: "is_digit a" "is_digit b"
  show ?thesis
    using is_digit_range [OF d(1)] is_digit_range [OF d(2)]
    unfolding less_char_def digit_val_def by arith
qed

lemma digit_eq_iff:
  "is_digit a \<Longrightarrow> is_digit b \<Longrightarrow> a = b \<longleftrightarrow> digit_val a = digit_val b"
proof -
  assume d: "is_digit a" "is_digit b"
  have "a = b \<longleftrightarrow> (of_char a :: nat) = of_char b" by simp
  also have "\<dots> \<longleftrightarrow> digit_val a = digit_val b"
    using is_digit_range [OF d(1)] is_digit_range [OF d(2)]
    unfolding digit_val_def by arith
  finally show ?thesis .
qed

lemma digit_val_le: "is_digit a \<Longrightarrow> digit_val a \<le> 9"
  using is_digit_range [of a] unfolding digit_val_def by arith

lemma digit_char_digit: "is_digit (digit_char n) \<and> digit_val (digit_char n) = n mod 10"
proof -
  have "n mod 10 < 10" by simp
  then have "n mod 10 = 0 \<or> n mod 10 = 1 \<or> n mod 10 = 2 \<or> n mod 10 = 3 \<or> n mod 10 = 4
      \<or> n mod 10 = 5 \<or> n mod 10 = 6 \<or> n mod 10 = 7 \<or> n mod 10 = 8 \<or> n mod 10 = 9"
    by arith
  then show ?thesis
    by (elim disjE) (simp_all add: digit_char_def is_digit_def digit_val_def)
qed

lemma digit_literals:
  "is_digit CHR ''0''" "is_digit CHR ''1''" "is_digit CHR ''2''"
  "digit_val CHR ''0'' = 0" "digit_val CHR ''1'' = 1" "digit_val CHR ''2'' = 2"
  by (simp_all add: is_digit_def digit_val_def)

lemma dash_not_digit: "\<not> is_digit CHR ''-''"
  by (simp add: is_digit_def)

text \<open>A date that parses and is not before the activation date has a year from 2022.\<close>

lemma strptime_Inr:
  assumes "strptime s = Inr (y, m, d)"
  shows "1 \<le> m \<and> m \<le> 12 \<and> 1 \<le> d
     \<and> (\<exists>a b c e rest. s = a # b # c # e # CHR ''-'' # rest
           \<and> is_digit a \<and> is_digit b \<and> is_digit c \<and> is_digit e
           \<and> y = 1000 * digit_val a + 100 * digit_val b + 10 * digit_val c + digit_val e)"
proof -
  from assms obtain ys ms ds where sp: "split_dash s = [ys, ms, ds]"
    and py: "parse_year ys = Some y" and pm: "parse_month ms = Some m"
    and pd: "parse_day ds = Some d"
    by (auto simp: strptime_def split: list.splits option.splits if_splits)
  from split_dash_join [of s] sp have s: "s = ys @ CHR ''-'' # ms @ CHR ''-'' # ds" by simp
  from py obtain a b c e where ys: "ys = [a, b, c, e]"
    and dg: "is_digit a" "is_digit b" "is_digit c" "is_digit e"
    and y: "y = 1000 * digit_val a + 100 * digit_val b + 10 * digit_val c + digit_val e"
    by (cases ys rule: parse_year.cases) (auto split: if_splits)
  have nz: "Suc 0 \<le> digit_val x" if "is_digit x" "x \<noteq> CHR ''0''" for x
    using digit_eq_iff [OF that(1) digit_literals(1)] that(2) by (simp add: digit_literals)
  from pm have m: "1 \<le> m \<and> m \<le> 12"
    by (cases ms rule: parse_month.cases)
       (auto split: if_splits simp: nz digit_literals dest: digit_val_le)
  from pd have d: "1 \<le> d"
    by (cases ds rule: parse_day.cases) (auto split: if_splits simp: nz digit_literals)
  show ?thesis using s ys dg y m d by auto
qed


lemma year_from_start:
  assumes "strptime s = Inr (y, m, d)" and "\<not> s < ''2022-01-01''"
  shows "2022 \<le> y"
proof -
  from strptime_Inr [OF assms(1)] obtain a b c e rest where
    s: "s = a # b # c # e # CHR ''-'' # rest"
    and dg: "is_digit a" "is_digit b" "is_digit c" "is_digit e"
    and y: "y = 1000 * digit_val a + 100 * digit_val b + 10 * digit_val c + digit_val e"
    by blast
  note cmp = digit_less_iff [OF dg(1) digit_literals(3)] digit_eq_iff [OF dg(1) digit_literals(3)]
    digit_less_iff [OF dg(2) digit_literals(1)] digit_eq_iff [OF dg(2) digit_literals(1)]
    digit_less_iff [OF dg(3) digit_literals(3)] digit_eq_iff [OF dg(3) digit_literals(3)]
    digit_less_iff [OF dg(4) digit_literals(3)] digit_eq_iff [OF dg(4) digit_literals(3)]
  from assms(2) have "\<not> digit_val a < 2"
    and "digit_val a = 2 \<Longrightarrow> digit_val b = 0 \<Longrightarrow> \<not> digit_val c < 2"
    and "digit_val a = 2 \<Longrightarrow> digit_val b = 0 \<Longrightarrow> digit_val c = 2 \<Longrightarrow> \<not> digit_val e < 2"
    unfolding s by (simp_all add: cmp digit_literals)
  then show ?thesis unfolding y by arith
qed

lemma digit_char_cmp:
  "digit_char n < CHR ''2'' \<longleftrightarrow> n mod 10 < 2"
  "digit_char n = CHR ''2'' \<longleftrightarrow> n mod 10 = 2"
  "\<not> digit_char n < CHR ''0''"
  "digit_char n = CHR ''0'' \<longleftrightarrow> n mod 10 = 0"
  "digit_char n < CHR ''1'' \<longleftrightarrow> n mod 10 < 1"
  "digit_char n = CHR ''1'' \<longleftrightarrow> n mod 10 = 1"
  using digit_char_digit [of n]
  by (simp_all add: digit_less_iff digit_eq_iff digit_literals)

text \<open>The decimal digits of a number below 10000, and of one below 100.\<close>

lemma four_digits:
  fixes y :: nat
  assumes "y < 10000"
  shows "y = 1000 * ((y div 1000) mod 10) + 100 * ((y div 100) mod 10)
             + 10 * ((y div 10) mod 10) + y mod 10"
proof -
  have "y = y mod (1000 * 10)" using assms by simp
  also have "\<dots> = 1000 * ((y div 1000) mod 10) + y mod (100 * 10)"
    by (simp only: mod_mult2_eq [of y 1000 10]) simp
  also have "y mod (100 * 10) = 100 * ((y div 100) mod 10) + y mod (10 * 10)"
    by (simp only: mod_mult2_eq [of y 100 10]) simp
  also have "y mod (10 * 10) = 10 * ((y div 10) mod 10) + y mod 10"
    by (simp only: mod_mult2_eq [of y 10 10])
  finally show ?thesis by (simp only: add.assoc)
qed

lemma two_digits:
  fixes m :: nat
  assumes "m < 100"
  shows "m = 10 * ((m div 10) mod 10) + m mod 10"
proof -
  have "m = m mod (10 * 10)" using assms by simp
  then show ?thesis by (simp only: mod_mult2_eq [of m 10 10])
qed

lemma strftime_not_before_start:
  assumes "2022 \<le> y" and "y \<le> 9999" and "1 \<le> m" and "m \<le> 12" and "1 \<le> d" and "d \<le> 31"
  shows "\<not> strftime (y, m, d) < ''2022-01-01''"
proof -
  define a b c e where "a = (y div 1000) mod 10" and "b = (y div 100) mod 10"
    and "c = (y div 10) mod 10" and "e = y mod 10"
  define m1 m0 d1 d0 where "m1 = (m div 10) mod 10" and "m0 = m mod 10"
    and "d1 = (d div 10) mod 10" and "d0 = d mod 10"
  have y: "y = 1000 * a + 100 * b + 10 * c + e"
    unfolding a_def b_def c_def e_def using assms(2) by (intro four_digits) simp
  have bd: "a < 10" "b < 10" "c < 10" "e < 10"
    by (simp_all add: a_def b_def c_def e_def)
  have m: "m = 10 * m1 + m0" unfolding m1_def m0_def using assms(4) by (intro two_digits) simp
  have d: "d = 10 * d1 + d0" unfolding d1_def d0_def using assms(6) by (intro two_digits) simp
  have ya: "\<not> a < 2" using y bd assms(1) by linarith
  have yc: "\<not> c < 2" if "a = 2" "b = 0" using y bd assms(1) that by linarith
  have ye: "\<not> e < 2" if "a = 2" "b = 0" "c = 2" using y bd assms(1) that by linarith
  have mm: "0 < m0" if "m1 = 0" using m assms(3) that by linarith
  have dd: "0 < d0" if "d1 = 0" using d assms(5) that by linarith
  have f: "digit_char (y div 1000) < CHR ''2'' \<longleftrightarrow> a < 2"
    "digit_char (y div 1000) = CHR ''2'' \<longleftrightarrow> a = 2"
    "digit_char (y div 100) = CHR ''0'' \<longleftrightarrow> b = 0"
    "digit_char (y div 10) < CHR ''2'' \<longleftrightarrow> c < 2"
    "digit_char (y div 10) = CHR ''2'' \<longleftrightarrow> c = 2"
    "digit_char y < CHR ''2'' \<longleftrightarrow> e < 2"
    "digit_char y = CHR ''2'' \<longleftrightarrow> e = 2"
    "digit_char (m div 10) = CHR ''0'' \<longleftrightarrow> m1 = 0"
    "digit_char m < CHR ''1'' \<longleftrightarrow> m0 < 1"
    "digit_char m = CHR ''1'' \<longleftrightarrow> m0 = 1"
    "digit_char (d div 10) = CHR ''0'' \<longleftrightarrow> d1 = 0"
    "digit_char d < CHR ''1'' \<longleftrightarrow> d0 < 1"
    unfolding a_def b_def c_def e_def m1_def m0_def d1_def d0_def
    by (simp_all only: digit_char_cmp)
  have "\<not> [digit_char (y div 1000), digit_char (y div 100), digit_char (y div 10), digit_char y,
           CHR ''-'', digit_char (m div 10), digit_char m,
           CHR ''-'', digit_char (d div 10), digit_char d] < ''2022-01-01''"
    using ya yc ye mm dd by (auto simp: f digit_char_cmp(3))
  then show ?thesis by (simp add: strftime_def)
qed

lemma days_in_month_bounds: "28 \<le> days_in_month y m \<and> days_in_month y m \<le> 31"
  by (simp add: days_in_month_def)

lemma month_later_Inr:
  assumes "month_later dt = Inr e"
  shows "\<exists>y m d. strptime dt = Inr (y, m, d)
      \<and> e = strftime (if m = 12 then y + 1 else y, if m = 12 then 1 else m + 1,
            min (days_in_month (if m = 12 then y + 1 else y) (if m = 12 then 1 else m + 1)) d)
      \<and> (if m = 12 then y + 1 else y) \<le> 9999"
proof -
  from assms obtain y m d where p: "strptime dt = Inr (y, m, d)"
    by (cases "strptime dt") (auto simp: month_later_def)
  let ?y = "if m = 12 then y + 1 else y" and ?m = "if m = 12 then 1 else m + 1"
  from assms p have "\<not> 9999 < ?y \<and> e = strftime (?y, ?m, min (days_in_month ?y ?m) d)"
    by (auto simp: month_later_def add_month_def Let_def split: if_splits)
  with p show ?thesis by (intro exI [of _ y] exI [of _ m] exI [of _ d]) simp
qed

lemma month_later_nonempty: "month_later dt = Inr e \<Longrightarrow> e \<noteq> []"
  by (drule month_later_Inr) (auto simp: strftime_def)

lemma month_later_not_before_start:
  assumes "month_later dt = Inr e" and "\<not> dt < ''2022-01-01''"
  shows "\<not> e < ''2022-01-01''"
proof -
  from month_later_Inr [OF assms(1)] obtain y m d where
    p: "strptime dt = Inr (y, m, d)"
    and e: "e = strftime (if m = 12 then y + 1 else y, if m = 12 then 1 else m + 1,
            min (days_in_month (if m = 12 then y + 1 else y) (if m = 12 then 1 else m + 1)) d)"
    and b: "(if m = 12 then y + 1 else y) \<le> 9999"
    by blast
  from year_from_start [OF p assms(2)] have y: "2022 \<le> y" .
  from strptime_Inr [OF p] have md: "1 \<le> m" "m \<le> 12" "1 \<le> d" by auto
  let ?y = "if m = 12 then y + 1 else y" and ?m = "if m = 12 then 1 else m + 1"
  have dd: "1 \<le> min (days_in_month ?y ?m) d" "min (days_in_month ?y ?m) d \<le> 31"
    using md(3) days_in_month_bounds [of ?y ?m] by auto
  have "2022 \<le> ?y" "1 \<le> ?m" "?m \<le> 12" using y md by auto
  from strftime_not_before_start [OF this(1) b this(2,3) dd] show ?thesis
    unfolding e .
qed

text \<open>Days inside a cool-down.\<close>

lemma cool_down_skips:
  assumes "stop_loss_date st \<noteq> []" and "\<forall>r \<in> set rows. row_date r \<noteq> stop_loss_date st"
  shows "\<exists>st'. sim_loop df g j s M zeta st rows = Inr st'
     \<and> trade_log st' = trade_log st \<and> stop_loss_date st' = stop_loss_date st
     \<and> long_pos st' = long_pos st \<and> short_pos st' = short_pos st"
  using assms
proof (induction rows arbitrary: st)
  case Nil
  then show ?case by simp
next
  case (Cons r rows)
  let ?st1 = "st\<lparr>cur_date := Some (row_date r)\<rparr>"
  have d: "day df g j s M zeta st r = Inr ?st1"
    using Cons.prems by (intro day_skip) simp
  have "\<exists>st'. sim_loop df g j s M zeta ?st1 rows = Inr st'
     \<and> trade_log st' = trade_log ?st1 \<and> stop_loss_date st' = stop_loss_date ?st1
     \<and> long_pos st' = long_pos ?st1 \<and> short_pos st' = short_pos ?st1"
    using Cons.prems by (intro Cons.IH) simp_all
  then show ?case by (simp add: d)
qed

lemma cool_down_ends:
  assumes "row_date r = stop_loss_date st" and "\<not> row_date r < ''2022-01-01''"
    and "\<not> is_open (long_pos st)"
  shows "day df g j s M zeta st r = decide df g j M zeta (today st r) r"
  using assms by (simp add: day_eval)

section \<open>Position: profit and loss at the entry price\<close>

text \<open>
  Claim C4 says that a position opened with entry cash \<open>c\<close> at a price \<open>p > 0\<close> has zero
  P\&L at \<open>p\<close>.  \<^verbatim>\<open>Position.open\<close> buys the whole number of shares \<open>round(c / p)\<close>, and
  the P\&L at the entry price is what these shares are worth at \<open>p\<close> less the cash \<open>c\<close>.
  With 100 of cash at the price 30 a long position holds 3 shares, worth 90, and shows
  \<open>-10\<close>.
\<close>

theorem entry_price_pnl_counterexample:
  "Position_init ''long''
     = Inr \<lparr>ptype = 1, name = '''', date = '''', entry_cash = NaN, price = NaN, amount = NaN\<rparr>
   \<and> Position_open
        \<lparr>ptype = 1, name = '''', date = '''', entry_cash = NaN, price = NaN, amount = NaN\<rparr>
        ''kxi'' ''2022-01-03'' (Fin 100) (Fin 30)
     = Inr \<lparr>ptype = 1, name = ''kxi'', date = ''2022-01-03'', entry_cash = Fin 100,
            price = Fin 30, amount = Fin 3\<rparr>
   \<and> get_pnl \<lparr>ptype = 1, name = ''kxi'', date = ''2022-01-03'', entry_cash = Fin 100,
               price = Fin 30, amount = Fin 3\<rparr> (Fin 30)
     = Fin (- 10)"
  by (simp add: Position_init_def Position_open_def is_open_def get_pnl_def fsub_Fin
      py_round_def)

text \<open>
  Claim C4, amended: for every position (long or short) opened with entry cash \<open>c\<close> at
  an entry price \<open>p > 0\<close>, where \<open>c\<close> is a whole multiple \<open>k * p\<close> of the price, the
  quantity is \<open>k\<close> and the P\&L at the entry price is zero.  (For other cash the rounded
  share count leaves a residue, as above.)  Nothing here rests on rounding: the quotient
  \<open>k\<close>, the product \<open>k * p\<close> and the difference are exact in the program's floats as well.
\<close>

theorem entry_price_pnl:
  assumes "Position_init pt = Inr p0"
    and "Position_open p0 nm dt (Fin c) (Fin p) = Inr pos"
    and "0 < p" and "c = of_int k * p"
  shows "amount pos = Fin (of_int k) \<and> get_pnl pos (Fin p) = Fin 0"
proof -
  from assms(3,4) have q: "c / p = of_int k" by simp
  from assms(2) have pos: "pos = p0\<lparr>name := nm, date := dt, entry_cash := Fin c,
      price := Fin p, amount := Fin (of_int (py_round (c / p)))\<rparr>"
    by (auto simp: Position_open_def split: if_splits)
  have a: "amount pos = Fin (of_int k)"
    by (simp add: pos q py_round_of_int)
  have "get_pnl pos (Fin p) = Fin (of_int (ptype p0) * of_int k * p - of_int (ptype p0) * c)"
    by (simp add: pos q py_round_of_int get_pnl_def fsub_Fin)
  also have "\<dots> = Fin 0" by (simp add: assms(4))
  finally show ?thesis using a by simp
qed

text \<open>A short position on xlp with 100 of cash at the price 25 holds 4 shares.\<close>

theorem entry_price_pnl_witness:
  "Position_init ''short''
     = Inr \<lparr>ptype = - 1, name = '''', date = '''', entry_cash = NaN, price = NaN, amount = NaN\<rparr>
   \<and> Position_open
        \<lparr>ptype = - 1, name = '''', date = '''', entry_cash = NaN, price = NaN, amount = NaN\<rparr>
        ''xlp'' ''2022-01-03'' (Fin 100) (Fin 25)
     = Inr \<lparr>ptype = - 1, name = ''xlp'', date = ''2022-01-03'', entry_cash = Fin 100,
            price = Fin 25, amount = Fin 4\<rparr>
   \<and> (0::real) < 25 \<and> (100::real) = of_int 4 * 25
   \<and> get_pnl \<lparr>ptype = - 1, name = ''xlp'', date = ''2022-01-03'', entry_cash = Fin 100,
               price = Fin 25, amount = Fin 4\<rparr> (Fin 25) = Fin 0"
proof -
  have i: "Position_init ''short''
     = Inr \<lparr>ptype = - 1, name = '''', date = '''', entry_cash = NaN, price = NaN, amount = NaN\<rparr>"
    by (simp add: Position_init_def)
  have o: "Position_open
        \<lparr>ptype = - 1, name = '''', date = '''', entry_cash = NaN, price = NaN, amount = NaN\<rparr>
        ''xlp'' ''2022-01-03'' (Fin 100) (Fin 25)
     = Inr \<lparr>ptype = - 1, name = ''xlp'', date = ''2022-01-03'', entry_cash = Fin 100,
            price = Fin 25, amount = Fin 4\<rparr>"
    by (simp add: Position_open_def is_open_def py_round_def)
  have p: "(0::real) < 25" and m: "(100::real) = of_int 4 * 25" by simp_all
  from entry_price_pnl [OF i o p m] i o show ?thesis by simp
qed

section \<open>Position: a query after close\<close>

text \<open>
  Claim C5 says that a P\&L query right after \<^verbatim>\<open>close\<close> fails.  \<^verbatim>\<open>Position.get_pnl\<close> has
  no check of \<^verbatim>\<open>is_open\<close>: on the cleared fields it multiplies and subtracts NaN and
  returns NaN.  The sample long leg closed at 24 realises 20; the query that follows
  returns NaN.
\<close>

theorem close_then_query_counterexample:
  "is_open sample_long
   \<and> Position_close sample_long (Fin 24) = Inr (Fin 20, closed_of sample_long)
   \<and> get_pnl (closed_of sample_long) (Fin 24) = NaN"
proof -
  have "get_pnl sample_long (Fin 24) = Fin 20"
    by (simp add: get_pnl_def sample_long_def fsub_Fin)
  then show ?thesis
    by (simp add: sample_open Position_close_open get_pnl_closed)
qed

text \<open>
  Claim C5, amended: for every open position, \<^verbatim>\<open>close(price)\<close> returns its realised P\&L
  and clears all fields; a \<^verbatim>\<open>get_pnl\<close> query on the now closed position does not raise but
  returns NaN; a second \<^verbatim>\<open>close\<close> raises \<^verbatim>\<open>AssertionError\<close>, and so does the pair
  evaluation \<^verbatim>\<open>get_pnls\<close> with the closed position as either leg.
\<close>

theorem close_then_query:
  assumes "is_open p"
  shows "Position_close p pr = Inr (get_pnl p pr, closed_of p)
     \<and> name (closed_of p) = '''' \<and> date (closed_of p) = '''' \<and> entry_cash (closed_of p) = NaN
     \<and> price (closed_of p) = NaN \<and> amount (closed_of p) = NaN
     \<and> get_pnl (closed_of p) q = NaN
     \<and> Position_close (closed_of p) q = Inl AssertionError
     \<and> get_pnls (closed_of p) other kxi xlp zeta s = Inl AssertionError
     \<and> get_pnls other (closed_of p) kxi xlp zeta s = Inl AssertionError"
proof -
  have "Position_close (closed_of p) q = Inl AssertionError"
    by (simp add: Position_close_def is_open_closed_of)
  then show ?thesis
    using assms
    by (simp add: Position_close_open get_pnl_closed get_pnls_not_open is_open_closed_of)
       (simp add: closed_of_def)
qed

theorem close_then_query_witness:
  "is_open sample_short
   \<and> Position_close sample_short (Fin 12) = Inr (Fin (- 20), closed_of sample_short)
   \<and> get_pnl (closed_of sample_short) (Fin 12) = NaN
   \<and> Position_close (closed_of sample_short) (Fin 12) = Inl AssertionError
   \<and> get_pnls (closed_of sample_short) sample_long (Fin 12) (Fin 20) (Fin 0) None
       = Inl AssertionError"
proof -
  have g: "get_pnl sample_short (Fin 12) = Fin (- 20)"
    by (simp add: get_pnl_def sample_short_def fsub_Fin)
  show ?thesis
    using close_then_query [OF sample_open(1), of "Fin 12" "Fin 12" sample_long "Fin 12" "Fin 20"
        "Fin 0" None]
    by (simp add: g sample_open)
qed

section \<open>Spread pair: the stop-loss check\<close>

text \<open>
  Claim C1 says that \<^verbatim>\<open>get_pnls\<close> signals a stop-loss whenever the total is negative,
  \<open>s\<close> is not null and the loss ratio exceeds \<open>s\<close>.  The test is
  \<^verbatim>\<open>(pnl < 0) and s\<close>, and the float \<open>0.0\<close> is false in Python: with \<open>s = 0\<close> the check
  is off although \<open>s\<close> is set and every loss ratio exceeds it.  On the sample pair with kxi
  at 12 the total is \<open>-20\<close>, the ratio \<open>20 / 200\<close> exceeds \<open>0\<close>, and the result is the
  flag \<open>True\<close> (not triggered) with the total.
\<close>

theorem stop_loss_check_counterexample:
  "is_open sample_short \<and> is_open sample_long
   \<and> total_pnl sample_short sample_long (Fin 12) (Fin 20) (Fin 0) = Fin (- 20)
   \<and> flt (Fin (- 20)) (Fin 0) \<and> Some (Fin 0) \<noteq> (None :: pyfloat option)
   \<and> fdiv (fabs (Fin (- 20))) (fmul (Fin 2) (entry_cash sample_short)) = Fin (1 / 10)
   \<and> fgt (Fin (1 / 10)) (Fin 0)
   \<and> get_pnls sample_short sample_long (Fin 12) (Fin 20) (Fin 0) (Some (Fin 0))
       = Inr (True, Fin (- 20))"
proof -
  have g: "get_pnls sample_short sample_long (Fin 12) (Fin 20) (Fin 0) (Some (Fin 0))
             = Inr (True, Fin (- 20))"
    by (simp add: get_pnls_open sample_open sample_total_12)
  show ?thesis
    by (simp add: sample_open sample_entry_cash g sample_total_12 fgt_def)
qed

text \<open>
  Claim C1, amended: for every pair of open legs, with \<open>total_pnl\<close> the sum of the legs'
  P\&L times \<open>1 - zeta\<close> and the gross cash twice the short leg's entry cash, if
  \<open>total_pnl < 0\<close>, \<open>s\<close> is set and is not zero, and \<open>|total_pnl| / gross_cash > s\<close>, the
  check signals the stop-loss (flag \<open>False\<close>) and returns the P\&L 0; otherwise (also with
  \<open>s = 0\<close>) it signals no stop-loss (flag \<open>True\<close>) and returns \<open>total_pnl\<close>.  When either
  leg is not open it raises \<^verbatim>\<open>AssertionError\<close>; the function changes no state in any case,
  since it only reads the positions.
\<close>

theorem stop_loss_check:
  "(\<not> is_open sp \<or> \<not> is_open lp \<longrightarrow> get_pnls sp lp kxi xlp zeta s = Inl AssertionError)
   \<and> (is_open sp \<and> is_open lp \<longrightarrow>
        get_pnls sp lp kxi xlp zeta s =
          (if flt (total_pnl sp lp kxi xlp zeta) (Fin 0) \<and> s \<noteq> None \<and> s \<noteq> Some (Fin 0)
              \<and> fgt (fdiv (fabs (total_pnl sp lp kxi xlp zeta)) (fmul (Fin 2) (entry_cash sp)))
                     (the s)
           then Inr (False, Fin 0)
           else Inr (True, total_pnl sp lp kxi xlp zeta)))"
  by (simp add: get_pnls_not_open get_pnls_open truthy_iff fmul_two_commute)

text \<open>
  The scenario of the specification: 100 of cash per leg and \<open>s = 0.1\<close>.  With kxi at 13
  the loss is 30 of 200 and the check triggers; with kxi at 12 the loss is 20 of 200, not
  more than \<open>s\<close>, and the total is returned; with the short leg closed the call fails.
\<close>

theorem stop_loss_check_witness:
  "is_open sample_short \<and> is_open sample_long \<and> \<not> is_open (closed_of sample_short)
   \<and> get_pnls sample_short sample_long (Fin 13) (Fin 20) (Fin 0) (Some (Fin (1 / 10)))
       = Inr (False, Fin 0)
   \<and> get_pnls sample_short sample_long (Fin 12) (Fin 20) (Fin 0) (Some (Fin (1 / 10)))
       = Inr (True, Fin (- 20))
   \<and> get_pnls (closed_of sample_short) sample_long (Fin 13) (Fin 20) (Fin 0)
        (Some (Fin (1 / 10))) = Inl AssertionError"
  using
    stop_loss_check [of sample_short sample_long "Fin 13" "Fin 20" "Fin 0" "Some (Fin (1 / 10))"]
    stop_loss_check [of sample_short sample_long "Fin 12" "Fin 20" "Fin 0" "Some (Fin (1 / 10))"]
    stop_loss_check [of "closed_of sample_short" sample_long "Fin 13" "Fin 20" "Fin 0"
      "Some (Fin (1 / 10))"]
  by (simp add: sample_open is_open_closed_of sample_entry_cash sample_total_12 sample_total_13
      fgt_def)

section \<open>Spread pair: a stop-loss fraction of zero\<close>

text \<open>
  Claim C9: the stop-loss fraction \<open>s = 0\<close> disables the check exactly as \<open>s = None\<close>
  does.  \<^verbatim>\<open>get_pnls\<close> with \<open>s = 0\<close> gives the result it gives with no \<open>s\<close> on every
  input, and for every pair of open legs that result is the flag \<open>True\<close> (not triggered)
  with the actual total P\&L, whatever the loss.
\<close>

theorem zero_stop_loss_disables:
  "get_pnls sp lp kxi xlp zeta (Some (Fin 0)) = get_pnls sp lp kxi xlp zeta None
   \<and> (is_open sp \<and> is_open lp \<longrightarrow>
        get_pnls sp lp kxi xlp zeta (Some (Fin 0)) = Inr (True, total_pnl sp lp kxi xlp zeta))"
  by (cases "is_open sp \<and> is_open lp") (auto simp: get_pnls_open get_pnls_not_open)

text \<open>On the sample pair with kxi at 13 the loss ratio \<open>30 / 200\<close> exceeds 0; no trigger.\<close>

theorem zero_stop_loss_disables_witness:
  "is_open sample_short \<and> is_open sample_long
   \<and> flt (total_pnl sample_short sample_long (Fin 13) (Fin 20) (Fin 0)) (Fin 0)
   \<and> fgt (fdiv (fabs (total_pnl sample_short sample_long (Fin 13) (Fin 20) (Fin 0)))
             (fmul (entry_cash sample_short) (Fin 2))) (Fin 0)
   \<and> get_pnls sample_short sample_long (Fin 13) (Fin 20) (Fin 0) (Some (Fin 0))
       = Inr (True, Fin (- 30))"
proof -
  from zero_stop_loss_disables [of sample_short sample_long "Fin 13" "Fin 20" "Fin 0"]
    sample_open
  have "get_pnls sample_short sample_long (Fin 13) (Fin 20) (Fin 0) (Some (Fin 0))
          = Inr (True, total_pnl sample_short sample_long (Fin 13) (Fin 20) (Fin 0))"
    by blast
  then show ?thesis
    by (simp add: sample_open sample_entry_cash sample_total_13 fgt_def)
qed

section \<open>Spread pair: the combined profit and loss\<close>

text \<open>
  Claim C8: for every pair of open legs and every \<open>zeta\<close>, the combined pair P\&L equals
  \<open>(pnl_short + pnl_long) * (1 - zeta)\<close>, each leg's P\&L being evaluated at the current
  price of the instrument that leg holds; with \<open>zeta = 0\<close> it is the unweighted sum of the
  two legs' P\&Ls.  \<^verbatim>\<open>get_pnls\<close> returns it with the check disabled, and with any \<open>s\<close>
  returns either it or the stop-loss answer.  A pair is a spread pair: its two legs hold
  the two instruments, one each.  These are the pairs of the program: \<^verbatim>\<open>open_positions\<close>
  opens no other, and whenever a leg is open between two iterations of \<^verbatim>\<open>simulate\<close> the
  two legs are such a pair.
\<close>

theorem combined_pnl:
  "({name sp, name lp} = {''kxi'', ''xlp''} \<longrightarrow>
      get_pnls sp lp kxi xlp zeta None
           = Inr (True, fmul (fadd (get_pnl sp (if name sp = ''kxi'' then kxi else xlp))
                                   (get_pnl lp (if name lp = ''kxi'' then kxi else xlp)))
                             (fsub (Fin 1) zeta))
      \<and> get_pnls sp lp kxi xlp (Fin 0) None
           = Inr (True, fadd (get_pnl sp (if name sp = ''kxi'' then kxi else xlp))
                             (get_pnl lp (if name lp = ''kxi'' then kxi else xlp)))
      \<and> (get_pnls sp lp kxi xlp zeta s = get_pnls sp lp kxi xlp zeta None
           \<or> get_pnls sp lp kxi xlp zeta s = Inr (False, Fin 0)))
   \<and> (open_positions lg sp0 lp0 kxi0 xlp0 dt cash want = Inr (lg', sp', lp') \<longrightarrow>
        {name sp', name lp'} = {''kxi'', ''xlp''})
   \<and> (sim_loop df g j s' M zeta' sim_init (take n df) = Inr st
        \<and> (is_open (short_pos st) \<or> is_open (long_pos st)) \<longrightarrow>
        {name (short_pos st), name (long_pos st)} = {''kxi'', ''xlp''})"
proof -
  have formula: "get_pnls sp lp kxi xlp zeta None
           = Inr (True, fmul (fadd (get_pnl sp (if name sp = ''kxi'' then kxi else xlp))
                                   (get_pnl lp (if name lp = ''kxi'' then kxi else xlp)))
                             (fsub (Fin 1) zeta))
      \<and> get_pnls sp lp kxi xlp (Fin 0) None
           = Inr (True, fadd (get_pnl sp (if name sp = ''kxi'' then kxi else xlp))
                             (get_pnl lp (if name lp = ''kxi'' then kxi else xlp)))
      \<and> (get_pnls sp lp kxi xlp zeta s = get_pnls sp lp kxi xlp zeta None
           \<or> get_pnls sp lp kxi xlp zeta s = Inr (False, Fin 0))"
    if names: "{name sp, name lp} = {''kxi'', ''xlp''}"
  proof -
    from names
    have n: "name sp = ''kxi'' \<and> name lp = ''xlp'' \<or> name sp = ''xlp'' \<and> name lp = ''kxi''"
      by (auto simp: doubleton_eq_iff)
    then have o: "is_open sp" "is_open lp" by (auto simp: is_open_def)
    have l: "(if name sp = ''kxi'' then xlp else kxi) = (if name lp = ''kxi'' then kxi else xlp)"
      using n by auto
    have t: "total_pnl sp lp kxi xlp z
        = fmul (fadd (get_pnl sp (if name sp = ''kxi'' then kxi else xlp))
                     (get_pnl lp (if name lp = ''kxi'' then kxi else xlp)))
               (fsub (Fin 1) z)" for z
      unfolding total_pnl_def l ..
    have one: "fsub (Fin 1) (Fin 0) = Fin 1" by (simp add: fsub_Fin)
    show ?thesis
      using o by (simp add: get_pnls_open t [symmetric]) (simp add: t one fmul_one_right)
  qed
  have built: "{name sp', name lp'} = {''kxi'', ''xlp''}"
    if "open_positions lg sp0 lp0 kxi0 xlp0 dt cash want = Inr (lg', sp', lp')"
    using that by (rule open_positions_names)
  have held: "{name (short_pos st), name (long_pos st)} = {''kxi'', ''xlp''}"
    if "sim_loop df g j s' M zeta' sim_init (take n df) = Inr st"
      and "is_open (short_pos st) \<or> is_open (long_pos st)"
    using reachable_pair_names [OF that(1)] that(2) by blast
  from formula built held show ?thesis by blast
qed

text \<open>
  The pair the sample series holds after three days (short 9 kxi entered at 11, long 5 xlp
  entered at 20) with kxi at 12, xlp at 21 and \<open>zeta = 1/10\<close>: the legs show \<open>-8\<close> and 5,
  the pair \<open>-3 * 9/10\<close>.
\<close>

theorem combined_pnl_witness:
  "sim_loop sample_series (Fin (1 / 20)) (Fin (1 / 100)) (Some (Fin (1 / 10))) 1 (Fin 0)
     sim_init (take 3 sample_series) = Inr sample_state
   \<and> is_open (short_pos sample_state)
   \<and> {name (short_pos sample_state), name (long_pos sample_state)} = {''kxi'', ''xlp''}
   \<and> get_pnl (short_pos sample_state) (Fin 12) = Fin (- 8)
   \<and> get_pnl (long_pos sample_state) (Fin 21) = Fin 5
   \<and> get_pnls (short_pos sample_state) (long_pos sample_state) (Fin 12) (Fin 21)
        (Fin (1 / 10)) None = Inr (True, Fin (- 27 / 10))
   \<and> get_pnls (short_pos sample_state) (long_pos sample_state) (Fin 12) (Fin 21) (Fin 0) None
       = Inr (True, Fin (- 3))"
proof -
  have nm: "name (short_pos sample_state) = ''kxi''" "name (long_pos sample_state) = ''xlp''"
    by (simp_all add: sample_state_def)
  have g: "get_pnl (short_pos sample_state) (Fin 12) = Fin (- 8)"
    "get_pnl (long_pos sample_state) (Fin 21) = Fin 5"
    by (simp_all add: get_pnl_def sample_state_def fsub_Fin)
  note c = combined_pnl [of "short_pos sample_state" "long_pos sample_state" "Fin 12" "Fin 21"
      "Fin (1 / 10)" None "[]" "short_pos sim_init" "long_pos sim_init" "Fin 11" "Fin 20"
      "''2022-01-03''" "Fin 100" "''short''" "trade_log sample_state" "short_pos sample_state"
      "long_pos sample_state" sample_series "Fin (1 / 20)" "Fin (1 / 100)" "Some (Fin (1 / 10))" 1
      "Fin 0" 3 sample_state]
  from c sample_loop_3 sample_state_facts(3)
  have n: "{name (short_pos sample_state), name (long_pos sample_state)} = {''kxi'', ''xlp''}"
    by blast
  with c have "get_pnls (short_pos sample_state) (long_pos sample_state) (Fin 12) (Fin 21)
        (Fin (1 / 10)) None
        = Inr (True, fmul (fadd (get_pnl (short_pos sample_state)
                 (if name (short_pos sample_state) = ''kxi'' then Fin 12 else Fin 21))
               (get_pnl (long_pos sample_state)
                 (if name (long_pos sample_state) = ''kxi'' then Fin 12 else Fin 21)))
             (fsub (Fin 1) (Fin (1 / 10))))"
    and "get_pnls (short_pos sample_state) (long_pos sample_state) (Fin 12) (Fin 21) (Fin 0) None
        = Inr (True, fadd (get_pnl (short_pos sample_state)
                 (if name (short_pos sample_state) = ''kxi'' then Fin 12 else Fin 21))
               (get_pnl (long_pos sample_state)
                 (if name (long_pos sample_state) = ''kxi'' then Fin 12 else Fin 21)))"
    by blast+
  then have "get_pnls (short_pos sample_state) (long_pos sample_state) (Fin 12) (Fin 21)
        (Fin (1 / 10)) None = Inr (True, Fin (- 27 / 10))"
    and "get_pnls (short_pos sample_state) (long_pos sample_state) (Fin 12) (Fin 21) (Fin 0) None
       = Inr (True, Fin (- 3))"
    by (simp_all add: nm g fsub_Fin)
  with n g sample_loop_3 sample_state_facts(3) show ?thesis by blast
qed

section \<open>Spread pair: closing the pair\<close>

text \<open>
  Claim C6: for every open pair \<^verbatim>\<open>close_positions\<close> appends exactly one row to the
  ledger: a CLOSE row that carries the date, the type the pair had (\<open>short\<close> when the
  short leg holds kxi, \<open>long\<close> otherwise), the gross cash \<open>2 *\<close> the short leg's entry
  cash, the given reason (\<open>Standard\<close> by default) and the combined P\&L as \<^verbatim>\<open>get_pnls\<close>
  returns it with the stop-loss check disabled (\<open>s = None\<close>).  It then closes both legs
  at the prices \<^verbatim>\<open>find_short_long\<close> resolves.  The recorded P\&L is the total also
  where the check with a threshold \<open>s\<close> would answer 0.
\<close>

theorem close_pair:
  assumes "is_open sp" and "is_open lp"
  shows "\<exists>row. close_positions lg dt sp lp kxi xlp zeta reason
                  = Inr (lg @ [row], closed_of sp, closed_of lp)
     \<and> log_date row = dt \<and> position_status row = ''CLOSE''
     \<and> position_type row = (if name sp = ''kxi'' then ''short'' else ''long'')
     \<and> gross_cash row = fmul (Fin 2) (entry_cash sp)
     \<and> Reason row = Some reason
     \<and> get_pnls sp lp kxi xlp zeta None = Inr (True, pnl row)
     \<and> pnl row = total_pnl sp lp kxi xlp zeta
     \<and> Position_close sp (fst (find_short_long sp lp kxi xlp))
         = Inr (get_pnl sp (fst (find_short_long sp lp kxi xlp)), closed_of sp)
     \<and> Position_close lp (snd (find_short_long sp lp kxi xlp))
         = Inr (get_pnl lp (snd (find_short_long sp lp kxi xlp)), closed_of lp)
     \<and> reason_default = ''Standard''"
  using assms
  by (intro exI [of _ "close_row dt sp lp kxi xlp zeta reason"])
     (simp add: close_positions_open get_pnls_None Position_close_open close_row_def
        fmul_two_commute reason_default_def)

text \<open>
  The sample pair with kxi at 13 and \<open>s = 0.1\<close>: the check answers stop-loss and 0, the
  closing row records the loss of 30.
\<close>

theorem close_pair_witness:
  "is_open sample_short \<and> is_open sample_long
   \<and> get_pnls sample_short sample_long (Fin 13) (Fin 20) (Fin 0) (Some (Fin (1 / 10)))
       = Inr (False, Fin 0)
   \<and> (\<exists>row. close_positions [] ''2022-01-04'' sample_short sample_long (Fin 13) (Fin 20) (Fin 0)
              ''STOP LOSS''
          = Inr ([row], closed_of sample_short, closed_of sample_long)
        \<and> pnl row = Fin (- 30) \<and> gross_cash row = Fin 200 \<and> position_type row = ''short''
        \<and> Reason row = Some ''STOP LOSS'')"
proof -
  have s: "get_pnls sample_short sample_long (Fin 13) (Fin 20) (Fin 0) (Some (Fin (1 / 10)))
       = Inr (False, Fin 0)"
    by (simp add: get_pnls_open sample_open sample_total_13 sample_entry_cash fgt_def)
  have n: "name sample_short = ''kxi''" by (simp add: sample_short_def)
  show ?thesis
    using close_pair [OF sample_open(1,2), of "[]" "''2022-01-04''" "Fin 13" "Fin 20" "Fin 0"
        "''STOP LOSS''"]
    by (auto simp add: s sample_open sample_total_13 sample_entry_cash n)
qed


section \<open>Simulation: the pair invariant\<close>

text \<open>
  Claim C10: at every point between two daily iterations of \<^verbatim>\<open>simulate\<close> (after any
  number \<open>n\<close> of rows of the series, when the run has not been aborted by an exception),
  the long position and the short position are either both open or both closed, and
  when they are open they hold different instruments, one kxi and the other xlp.
\<close>

theorem pair_invariant:
  assumes "sim_loop df g j s M zeta sim_init (take n df) = Inr st"
  shows "(is_open (long_pos st) \<longleftrightarrow> is_open (short_pos st))
     \<and> (is_open (long_pos st) \<longrightarrow>
          name (long_pos st) \<noteq> name (short_pos st)
          \<and> {name (long_pos st), name (short_pos st)} = {''kxi'', ''xlp''})"
proof -
  have "pair_inv st" using sim_loop_pair_inv [OF pair_inv_init assms] .
  then show ?thesis by (auto simp: pair_inv_iff is_open_def)
qed

text \<open>After three days of the sample series the pair is open, short kxi and long xlp.\<close>

theorem pair_invariant_witness:
  "sim_loop sample_series (Fin (1 / 20)) (Fin (1 / 100)) (Some (Fin (1 / 10))) 1 (Fin 0)
     sim_init (take 3 sample_series) = Inr sample_state
   \<and> is_open (long_pos sample_state) \<and> is_open (short_pos sample_state)
   \<and> name (long_pos sample_state) = ''xlp'' \<and> name (short_pos sample_state) = ''kxi''
   \<and> {name (long_pos sample_state), name (short_pos sample_state)} = {''kxi'', ''xlp''}"
  using pair_invariant [OF sample_loop_3] sample_loop_3 sample_state_facts
  by (simp add: sample_state_def)

section \<open>Simulation: the end of the series\<close>

text \<open>
  Claim C7: when the loop of \<^verbatim>\<open>simulate\<close> has run past the last row and a pair is
  still open, the closing code appends exactly one more row, a CLOSE row dated on the
  last row of the series with the reason \<open>Standard\<close>, and leaves both positions closed;
  the call cannot fail there, since both legs are open and the loop has assigned the
  variables it reads.  When no pair is open the ledger of the loop is returned as it is.
\<close>

theorem end_of_series:
  assumes "sim_loop df g j s M zeta sim_init df = Inr st"
  shows "(is_open (short_pos st) \<or> is_open (long_pos st) \<longrightarrow>
           (\<exists>row st'. simulate_state df g j s M zeta = Inr st'
              \<and> simulate df g j s M zeta = Inr (trade_log st @ [row])
              \<and> trade_log st' = trade_log st @ [row]
              \<and> position_status row = ''CLOSE'' \<and> Reason row = Some ''Standard''
              \<and> df \<noteq> [] \<and> log_date row = row_date (last df)
              \<and> \<not> is_open (short_pos st') \<and> \<not> is_open (long_pos st')))
     \<and> (\<not> is_open (short_pos st) \<and> \<not> is_open (long_pos st) \<longrightarrow>
           simulate_state df g j s M zeta = Inr st
           \<and> simulate df g j s M zeta = Inr (trade_log st))"
proof -
  have closed: "simulate_state df g j s M zeta = Inr st
      \<and> simulate df g j s M zeta = Inr (trade_log st)"
    if "\<not> is_open (short_pos st) \<and> \<not> is_open (long_pos st)"
  proof -
    have "simulate_state df g j s M zeta = Inr st"
      using assms that by (simp add: simulate_state_def finish_closed)
    then show ?thesis by (simp add: simulate_def)
  qed
  have opened: "\<exists>row st'. simulate_state df g j s M zeta = Inr st'
              \<and> simulate df g j s M zeta = Inr (trade_log st @ [row])
              \<and> trade_log st' = trade_log st @ [row]
              \<and> position_status row = ''CLOSE'' \<and> Reason row = Some ''Standard''
              \<and> df \<noteq> [] \<and> log_date row = row_date (last df)
              \<and> \<not> is_open (short_pos st') \<and> \<not> is_open (long_pos st')"
    if o: "is_open (short_pos st) \<or> is_open (long_pos st)"
  proof -
    have inv: "loop_inv st" using sim_loop_inv [OF loop_inv_init assms] .
    have ne: "df \<noteq> []"
    proof
      assume "df = []"
      with assms have "st = sim_init" by simp
      with o show False by (simp add: sim_init_def is_open_def)
    qed
    have d: "cur_date st = Some (row_date (last df))"
      using sim_loop_cur_date [OF ne assms] .
    from finish_open [OF inv _ d, of zeta] o obtain kxi xlp where
      f: "finish zeta st
         = Inr (st\<lparr>trade_log := trade_log st
                       @ [close_row (row_date (last df)) (short_pos st) (long_pos st) kxi xlp
                            zeta reason_default],
                   short_pos := closed_of (short_pos st),
                   long_pos := closed_of (long_pos st)\<rparr>)"
      by auto
    let ?row = "close_row (row_date (last df)) (short_pos st) (long_pos st) kxi xlp zeta
                  reason_default"
    let ?st' = "st\<lparr>trade_log := trade_log st @ [?row],
                   short_pos := closed_of (short_pos st), long_pos := closed_of (long_pos st)\<rparr>"
    have s: "simulate_state df g j s M zeta = Inr ?st'"
      using assms f by (simp add: simulate_state_def)
    then have "simulate df g j s M zeta = Inr (trade_log st @ [?row])"
      by (simp add: simulate_def)
    with s ne show ?thesis
      by (intro exI [of _ ?row] exI [of _ ?st'])
         (simp add: close_row_def reason_default_def is_open_closed_of)
  qed
  from closed opened show ?thesis by blast
qed

text \<open>
  The sample series (a pair opened on day 3 of 5 and never exited) ends with one CLOSE
  row dated on the fifth day; its first two days alone give the empty ledger.
\<close>

theorem end_of_series_witness:
  "sim_loop sample_series (Fin (1 / 20)) (Fin (1 / 100)) (Some (Fin (1 / 10))) 1 (Fin 0)
     sim_init sample_series
     = Inr (sample_state\<lparr>cur_date := Some ''2022-01-05'', cur_kxi := Some (Fin (58 / 5))\<rparr>)
   \<and> is_open (short_pos sample_state)
   \<and> (\<exists>row. simulate sample_series (Fin (1 / 20)) (Fin (1 / 100)) (Some (Fin (1 / 10))) 1
              (Fin 0) = Inr (trade_log sample_state @ [row])
          \<and> position_status row = ''CLOSE'' \<and> Reason row = Some ''Standard''
          \<and> log_date row = ''2022-01-05'')
   \<and> simulate (take 2 sample_series) (Fin (1 / 20)) (Fin (1 / 100)) (Some (Fin (1 / 10))) 1
        (Fin 0) = Inr []"
proof -
  have l: "row_date (last sample_series) = ''2022-01-05''"
    by (simp add: sample_series_def)
  have o: "is_open (short_pos
      (sample_state\<lparr>cur_date := Some ''2022-01-05'', cur_kxi := Some (Fin (58 / 5))\<rparr>))"
    by (simp add: sample_state_facts)
  have c: "\<not> is_open (short_pos (sim_init\<lparr>cur_date := Some ''2021-12-31''\<rparr>))"
    "\<not> is_open (long_pos (sim_init\<lparr>cur_date := Some ''2021-12-31''\<rparr>))"
    "trade_log (sim_init\<lparr>cur_date := Some ''2021-12-31''\<rparr>) = []"
    by (simp_all add: sim_init_def is_open_def)
  from end_of_series [OF sample_loop] o
  have "\<exists>row. simulate sample_series (Fin (1 / 20)) (Fin (1 / 100)) (Some (Fin (1 / 10))) 1
              (Fin 0) = Inr (trade_log sample_state @ [row])
          \<and> position_status row = ''CLOSE'' \<and> Reason row = Some ''Standard''
          \<and> log_date row = ''2022-01-05''"
    by (auto simp: l)
  moreover from end_of_series [OF sample_loop_warm_up] c
  have "simulate (take 2 sample_series) (Fin (1 / 20)) (Fin (1 / 100)) (Some (Fin (1 / 10))) 1
        (Fin 0) = Inr []"
    by simp
  ultimately show ?thesis
    using sample_loop sample_state_facts(3) by blast
qed

section \<open>Simulation: hold and same-day flip\<close>

text \<open>
  Claim C3 says that on any day with \<open>|z| > g\<close> and a pair open in the desired direction
  no row is appended and both positions stay as they are.  \<^verbatim>\<open>simulate\<close> runs the
  stop-loss check of the day before it looks at the signal, and a triggered check closes
  the pair and ends the day.  After three days of the series \<open>four_days 14\<close> the pair is
  short; on the fourth day kxi is at 14, the signal is \<open>z = 3/11 > g\<close>, so short is the
  desired direction and the pair has it, but the loss of 26 on 200 exceeds \<open>s = 0.1\<close>: the
  day appends a CLOSE row with the reason \<open>STOP LOSS\<close> and closes both legs.
\<close>

theorem hold_and_flip_counterexample:
  "sim_loop (four_days 14) (Fin (1 / 20)) (Fin (1 / 100)) (Some (Fin (1 / 10))) 1 (Fin 0)
     sim_init (take 3 (four_days 14)) = Inr sample_state
   \<and> is_open (long_pos sample_state) \<and> is_open (short_pos sample_state)
   \<and> name (short_pos sample_state) = ''kxi''
   \<and> get_mday_returns (four_days 14) (next_day 14) 1 = Inr (Fin (3 / 11), Fin 0)
   \<and> fgt (fabs (fsub (Fin (3 / 11)) (Fin 0))) (Fin (1 / 20))
   \<and> fgt (fsub (Fin (3 / 11)) (Fin 0)) (Fin (1 / 20))
   \<and> day (four_days 14) (Fin (1 / 20)) (Fin (1 / 100)) (Some (Fin (1 / 10))) 1 (Fin 0)
        sample_state (next_day 14)
      = Inr (sample_state
          \<lparr>trade_log := trade_log sample_state
             @ [\<lparr>log_date = ''2022-01-04'', position_status = ''CLOSE'',
                  position_type = ''short'', gross_cash = Fin 200, pnl = Fin (- 26),
                  kxi_price = Fin 14, kxi_amount = Fin 9, xlp_price = Fin 20,
                  xlp_amount = Fin 5, Reason = Some ''STOP LOSS''\<rparr>],
           stop_loss_date := ''2022-02-04'',
           long_pos := closed_of (long_pos sample_state),
           short_pos := closed_of (short_pos sample_state),
           cur_date := Some ''2022-01-04'', cur_kxi := Some (Fin 14)\<rparr>)
   \<and> closed_of (long_pos sample_state) \<noteq> long_pos sample_state"
proof -
  have z: "fgt (fabs (fsub (Fin (3 / 11)) (Fin 0))) (Fin (1 / 20))"
    "fgt (fsub (Fin (3 / 11)) (Fin 0)) (Fin (1 / 20))"
    by (simp_all add: fsub_Fin fgt_def)
  have c: "closed_of (long_pos sample_state) \<noteq> long_pos sample_state"
    by (simp add: closed_of_def sample_state_def)
  show ?thesis
    using four_days_loop(3) sample_state_facts(2,3,5) four_days_returns(3) z four_days_stop c
    by blast
qed

text \<open>
  Claim C3, amended: take a day that \<^verbatim>\<open>simulate\<close> evaluates (it is not before the
  activation date; a cool-down is never active while a pair is open), with a pair open
  and a signal \<open>z\<close> with \<open>|z| > g\<close>.  The stop-loss check of the day has precedence: if it
  triggers, the day appends one CLOSE row with the reason \<open>STOP LOSS\<close>, closes both legs
  and does nothing else.  If it does not trigger: the desired direction is \<open>short\<close> when
  \<open>z > g\<close> and \<open>long\<close> otherwise (for \<open>g \<ge> 0\<close> that is the sign of \<open>z\<close>), and the open
  pair is \<open>short\<close> when its short leg holds kxi.  If the pair has the desired direction the
  day appends no row and leaves both positions as they are.  If it has the opposite
  direction the day appends exactly two rows, first a CLOSE with the reason \<open>Standard\<close>
  and then an OPEN of the desired direction, both dated that day and at that day's prices
  (taken finite and not zero, so that the share counts exist), and the new legs hold the
  instruments of the desired direction.
\<close>

theorem hold_and_flip:
  assumes inv: "pair_inv st" and op: "is_open (long_pos st)"
    and nw: "\<not> row_date row < ''2022-01-01''"
    and ncd: "stop_loss_date st = '''' \<or> row_date row = stop_loss_date st"
    and sig: "get_mday_returns df row M = Inr (rk, rx)"
    and big: "fgt (fabs (fsub rk rx)) g"
    and des: "desired = (if fgt (fsub rk rx) g then ''short'' else ''long'')"
    and cur: "current = (if name (short_pos st) = ''kxi'' then ''short'' else ''long'')"
  shows "(get_pnls (short_pos st) (long_pos st) (KXI_adj_close row) (XLP_adj_close row) zeta s
            = Inr (False, p)
          \<and> month_later (row_date row) = Inr e \<longrightarrow>
           (\<exists>st' r. day df g j s M zeta st row = Inr st'
              \<and> trade_log st' = trade_log st @ [r]
              \<and> position_status r = ''CLOSE'' \<and> Reason r = Some ''STOP LOSS''
              \<and> log_date r = row_date row
              \<and> \<not> is_open (long_pos st') \<and> \<not> is_open (short_pos st')))
     \<and> (get_pnls (short_pos st) (long_pos st) (KXI_adj_close row) (XLP_adj_close row) zeta s
            = Inr (True, p)
          \<and> current = desired \<longrightarrow>
           (\<exists>st'. day df g j s M zeta st row = Inr st' \<and> trade_log st' = trade_log st
              \<and> long_pos st' = long_pos st \<and> short_pos st' = short_pos st))
     \<and> (get_pnls (short_pos st) (long_pos st) (KXI_adj_close row) (XLP_adj_close row) zeta s
            = Inr (True, p)
          \<and> current \<noteq> desired \<and> KXI_adj_close row = Fin k \<and> k \<noteq> 0
          \<and> XLP_adj_close row = Fin x \<and> x \<noteq> 0 \<and> N_t row = Fin n \<longrightarrow>
           (\<exists>st' rc ro. day df g j s M zeta st row = Inr st'
              \<and> trade_log st' = trade_log st @ [rc, ro]
              \<and> position_status rc = ''CLOSE'' \<and> Reason rc = Some ''Standard''
              \<and> log_date rc = row_date row \<and> position_type rc = current
              \<and> position_status ro = ''OPEN'' \<and> position_type ro = desired
              \<and> log_date ro = row_date row \<and> kxi_price ro = Fin k \<and> xlp_price ro = Fin x
              \<and> name (short_pos st') = (if desired = ''short'' then ''kxi'' else ''xlp'')
              \<and> name (long_pos st') = (if desired = ''short'' then ''xlp'' else ''kxi'')
              \<and> price (short_pos st') = (if desired = ''short'' then Fin k else Fin x)
              \<and> price (long_pos st') = (if desired = ''short'' then Fin x else Fin k)
              \<and> date (short_pos st') = row_date row \<and> date (long_pos st') = row_date row))
     \<and> (\<not> flt g (Fin 0) \<longrightarrow> (desired = ''short'' \<longleftrightarrow> flt (Fin 0) (fsub rk rx)))"
proof -
  from inv op have os: "is_open (short_pos st)" by (simp add: pair_inv_def)
  from inv op
  have names: "name (long_pos st) = ''kxi'' \<and> name (short_pos st) = ''xlp''
      \<or> name (long_pos st) = ''xlp'' \<and> name (short_pos st) = ''kxi''"
    by (auto simp: pair_inv_iff is_open_def)
  let ?h = "if fgt (fsub rk rx) g then short_pos st else long_pos st"
  let ?check = "get_pnls (short_pos st) (long_pos st) (KXI_adj_close row) (XLP_adj_close row)
                  zeta s"
  have stop: "\<exists>st' r. day df g j s M zeta st row = Inr st'
              \<and> trade_log st' = trade_log st @ [r]
              \<and> position_status r = ''CLOSE'' \<and> Reason r = Some ''STOP LOSS''
              \<and> log_date r = row_date row
              \<and> \<not> is_open (long_pos st') \<and> \<not> is_open (short_pos st')"
    if trig: "?check = Inr (False, p)" and ml: "month_later (row_date row) = Inr e"
  proof -
    let ?row = "close_row (row_date row) (short_pos st) (long_pos st) (KXI_adj_close row)
                  (XLP_adj_close row) zeta ''STOP LOSS''"
    let ?st' = "(today st row)\<lparr>stop_loss_date := e, trade_log := trade_log st @ [?row],
                  short_pos := closed_of (short_pos st), long_pos := closed_of (long_pos st)\<rparr>"
    have "day df g j s M zeta st row = Inr ?st'"
      using op os trig ml by (simp add: day_eval [OF nw ncd] sim_close_open)
    then show ?thesis
      by (intro exI [of _ ?st'] exI [of _ ?row]) (simp add: close_row_def is_open_closed_of)
  qed
  have d: "day df g j s M zeta st row
      = enter zeta desired ?h (row_date row) (KXI_adj_close row) (XLP_adj_close row)
          (fdiv (N_t row) (Fin 100)) (today st row)"
    if "?check = Inr (True, p)"
    using op os that by (simp add: day_eval [OF nw ncd] decide_entry [OF sig big] des)
  have same: "current = desired \<longleftrightarrow> name ?h = ''kxi''"
    using names by (auto simp: des cur)
  have hold: "\<exists>st'. day df g j s M zeta st row = Inr st' \<and> trade_log st' = trade_log st
              \<and> long_pos st' = long_pos st \<and> short_pos st' = short_pos st"
    if nsl: "?check = Inr (True, p)" and "current = desired"
  proof -
    from that same have "name ?h = ''kxi''" by simp
    then have "day df g j s M zeta st row = Inr (today st row)"
      unfolding d [OF nsl] using op by (intro enter_hold) simp_all
    then show ?thesis by simp
  qed
  have flip: "\<exists>st' rc ro. day df g j s M zeta st row = Inr st'
              \<and> trade_log st' = trade_log st @ [rc, ro]
              \<and> position_status rc = ''CLOSE'' \<and> Reason rc = Some ''Standard''
              \<and> log_date rc = row_date row \<and> position_type rc = current
              \<and> position_status ro = ''OPEN'' \<and> position_type ro = desired
              \<and> log_date ro = row_date row \<and> kxi_price ro = Fin k \<and> xlp_price ro = Fin x
              \<and> name (short_pos st') = (if desired = ''short'' then ''kxi'' else ''xlp'')
              \<and> name (long_pos st') = (if desired = ''short'' then ''xlp'' else ''kxi'')
              \<and> price (short_pos st') = (if desired = ''short'' then Fin k else Fin x)
              \<and> price (long_pos st') = (if desired = ''short'' then Fin x else Fin k)
              \<and> date (short_pos st') = row_date row \<and> date (long_pos st') = row_date row"
    if nsl: "?check = Inr (True, p)" and ne: "current \<noteq> desired"
      and f: "KXI_adj_close row = Fin k" "k \<noteq> 0" "XLP_adj_close row = Fin x" "x \<noteq> 0"
        "N_t row = Fin n"
  proof -
    from ne same have h: "name ?h \<noteq> ''kxi''" by simp
    have w: "desired \<in> {''short'', ''long''}" by (simp add: des)
    have o2: "is_open (long_pos (today st row))" "is_open (short_pos (today st row))"
      using op os by simp_all
    note e = enter_flip [OF o2 h w f(2) f(4), of zeta "row_date row" "n / 100"]
    show ?thesis
      unfolding d [OF nsl] f fdiv_Fin_100 e Let_def
      by (intro exI conjI, rule refl)
         (auto simp: close_row_def open_row_def reason_default_def cur des)
  qed
  have sgn: "desired = ''short'' \<longleftrightarrow> flt (Fin 0) (fsub rk rx)" if "\<not> flt g (Fin 0)"
    using fgt_sign [OF big that] by (simp add: des)
  from stop hold flip sgn show ?thesis by blast
qed

text \<open>
  From the state of a run after three days (short kxi, long xlp): kxi at 12 gives
  \<open>z = 1/11 > g\<close>, short is desired and the pair is held; kxi at 10 gives
  \<open>z = -1/11 < -g\<close>, long is desired and the pair is flipped; kxi at 14 triggers the
  stop-loss check and the pair is closed.
\<close>

theorem hold_and_flip_witness:
  "sim_loop (four_days 12) (Fin (1 / 20)) (Fin (1 / 100)) (Some (Fin (1 / 10))) 1 (Fin 0)
     sim_init (take 3 (four_days 12)) = Inr sample_state
   \<and> pair_inv sample_state \<and> is_open (long_pos sample_state)
   \<and> stop_loss_date sample_state = ''''
   \<and> get_mday_returns (four_days 12) (next_day 12) 1 = Inr (Fin (1 / 11), Fin 0)
   \<and> fgt (fabs (fsub (Fin (1 / 11)) (Fin 0))) (Fin (1 / 20))
   \<and> (\<exists>st'. day (four_days 12) (Fin (1 / 20)) (Fin (1 / 100)) (Some (Fin (1 / 10))) 1 (Fin 0)
               sample_state (next_day 12) = Inr st'
          \<and> trade_log st' = trade_log sample_state
          \<and> long_pos st' = long_pos sample_state \<and> short_pos st' = short_pos sample_state)
   \<and> get_mday_returns (four_days 10) (next_day 10) 1 = Inr (Fin (- 1 / 11), Fin 0)
   \<and> fgt (fabs (fsub (Fin (- 1 / 11)) (Fin 0))) (Fin (1 / 20))
   \<and> (\<exists>st' rc ro. day (four_days 10) (Fin (1 / 20)) (Fin (1 / 100)) (Some (Fin (1 / 10))) 1
               (Fin 0) sample_state (next_day 10) = Inr st'
          \<and> trade_log st' = trade_log sample_state @ [rc, ro]
          \<and> position_status rc = ''CLOSE'' \<and> Reason rc = Some ''Standard''
          \<and> log_date rc = ''2022-01-04'' \<and> position_type rc = ''short''
          \<and> position_status ro = ''OPEN'' \<and> position_type ro = ''long''
          \<and> log_date ro = ''2022-01-04'' \<and> kxi_price ro = Fin 10 \<and> xlp_price ro = Fin 20
          \<and> name (short_pos st') = ''xlp'' \<and> name (long_pos st') = ''kxi'')
   \<and> get_mday_returns (four_days 14) (next_day 14) 1 = Inr (Fin (3 / 11), Fin 0)
   \<and> fgt (fabs (fsub (Fin (3 / 11)) (Fin 0))) (Fin (1 / 20))
   \<and> (\<exists>st' r. day (four_days 14) (Fin (1 / 20)) (Fin (1 / 100)) (Some (Fin (1 / 10))) 1
               (Fin 0) sample_state (next_day 14) = Inr st'
          \<and> trade_log st' = trade_log sample_state @ [r]
          \<and> position_status r = ''CLOSE'' \<and> Reason r = Some ''STOP LOSS''
          \<and> \<not> is_open (long_pos st') \<and> \<not> is_open (short_pos st'))"
proof -
  have inv: "pair_inv sample_state"
    using sim_loop_pair_inv [OF pair_inv_init four_days_loop(2)] .
  have op: "is_open (long_pos sample_state)" by (rule sample_state_facts(2))
  have sl: "stop_loss_date sample_state = ''''"
    using open_pair_no_cool_down [OF four_days_loop(2) op] .
  then have nc: "stop_loss_date sample_state = ''''
      \<or> row_date (next_day k) = stop_loss_date sample_state" for k
    by simp
  have b12: "fgt (fabs (fsub (Fin (1 / 11)) (Fin 0))) (Fin (1 / 20))"
    and b10: "fgt (fabs (fsub (Fin (- 1 / 11)) (Fin 0))) (Fin (1 / 20))"
    and b14: "fgt (fabs (fsub (Fin (3 / 11)) (Fin 0))) (Fin (1 / 20))"
    by (simp_all add: fsub_Fin fgt_def)
  have d12: "''short'' = (if fgt (fsub (Fin (1 / 11)) (Fin 0)) (Fin (1 / 20))
                         then ''short'' else ''long'')"
    and d10: "''long'' = (if fgt (fsub (Fin (- 1 / 11)) (Fin 0)) (Fin (1 / 20))
                         then ''short'' else ''long'')"
    and d14: "''short'' = (if fgt (fsub (Fin (3 / 11)) (Fin 0)) (Fin (1 / 20))
                         then ''short'' else ''long'')"
    by (simp_all add: fsub_Fin fgt_def)
  have cur: "''short'' = (if name (short_pos sample_state) = ''kxi'' then ''short'' else ''long'')"
    by (simp add: sample_state_facts)
  have c12: "get_pnls (short_pos sample_state) (long_pos sample_state)
      (KXI_adj_close (next_day 12)) (XLP_adj_close (next_day 12)) (Fin 0) (Some (Fin (1 / 10)))
      = Inr (True, Fin (- 8))"
    and c10: "get_pnls (short_pos sample_state) (long_pos sample_state)
      (KXI_adj_close (next_day 10)) (XLP_adj_close (next_day 10)) (Fin 0) (Some (Fin (1 / 10)))
      = Inr (True, Fin 10)"
    and c14: "get_pnls (short_pos sample_state) (long_pos sample_state)
      (KXI_adj_close (next_day 14)) (XLP_adj_close (next_day 14)) (Fin 0) (Some (Fin (1 / 10)))
      = Inr (False, Fin 0)"
    by (simp_all add: next_day_facts sample_checks)
  have m: "month_later (row_date (next_day 14)) = Inr ''2022-02-04''"
    by (simp add: next_day_facts sample_month)
  note hold = hold_and_flip [OF inv op next_day_facts(1) nc four_days_returns(2) b12 d12 cur,
      of "Fin (0)" "Some (Fin (1 / 10))" "Fin (- 8)" "[]" "Fin (1 / 100)" 12 20 10000]
  note flip = hold_and_flip [OF inv op next_day_facts(1) nc four_days_returns(1) b10 d10 cur,
      of "Fin (0)" "Some (Fin (1 / 10))" "Fin 10" "[]" "Fin (1 / 100)" 10 20 10000]
  note stop = hold_and_flip [OF inv op next_day_facts(1) nc four_days_returns(3) b14 d14 cur,
      of "Fin (0)" "Some (Fin (1 / 10))" "Fin 0" "''2022-02-04''" "Fin (1 / 100)" 14 20 10000]
  from hold c12 have h: "\<exists>st'. day (four_days 12) (Fin (1 / 20)) (Fin (1 / 100))
               (Some (Fin (1 / 10))) 1 (Fin 0) sample_state (next_day 12) = Inr st'
          \<and> trade_log st' = trade_log sample_state
          \<and> long_pos st' = long_pos sample_state \<and> short_pos st' = short_pos sample_state"
    by simp
  from flip c10 have f: "\<exists>st' rc ro. day (four_days 10) (Fin (1 / 20)) (Fin (1 / 100))
               (Some (Fin (1 / 10))) 1 (Fin 0) sample_state (next_day 10) = Inr st'
          \<and> trade_log st' = trade_log sample_state @ [rc, ro]
          \<and> position_status rc = ''CLOSE'' \<and> Reason rc = Some ''Standard''
          \<and> log_date rc = ''2022-01-04'' \<and> position_type rc = ''short''
          \<and> position_status ro = ''OPEN'' \<and> position_type ro = ''long''
          \<and> log_date ro = ''2022-01-04'' \<and> kxi_price ro = Fin 10 \<and> xlp_price ro = Fin 20
          \<and> name (short_pos st') = ''xlp'' \<and> name (long_pos st') = ''kxi''"
    by (simp add: next_day_facts) blast
  from stop c14 m have s: "\<exists>st' r. day (four_days 14) (Fin (1 / 20)) (Fin (1 / 100))
               (Some (Fin (1 / 10))) 1 (Fin 0) sample_state (next_day 14) = Inr st'
          \<and> trade_log st' = trade_log sample_state @ [r]
          \<and> position_status r = ''CLOSE'' \<and> Reason r = Some ''STOP LOSS''
          \<and> \<not> is_open (long_pos st') \<and> \<not> is_open (short_pos st')"
    by simp blast
  from h f s four_days_loop(2) inv op sl four_days_returns b12 b10 b14 show ?thesis by blast
qed

section \<open>Simulation: the stop-loss cool-down\<close>

text \<open>
  Claim C2: take a day \<open>d\<close> (a date that \<^verbatim>\<open>strptime\<close> reads) on which both legs are
  open and the stop-loss check triggers.  The day sets the cool-down end-date to the date
  one calendar month after \<open>d\<close> (the next month, the day of the month kept, cut down to
  the length of that month), appends exactly one row, a CLOSE row dated \<open>d\<close> with the
  reason \<open>STOP LOSS\<close>, leaves both positions closed and does nothing else.  Over any
  following days whose date is not the end-date the loop appends no row and keeps the
  end-date.  On a day whose date is the end-date the cool-down is cleared and the day is
  evaluated as any other: with no pair open, that is the entry decision of that day.
\<close>

theorem stop_loss_cool_down:
  assumes nw: "\<not> row_date row < ''2022-01-01''"
    and ncd: "stop_loss_date st = '''' \<or> row_date row = stop_loss_date st"
    and ol: "is_open (long_pos st)" and os: "is_open (short_pos st)"
    and trig: "get_pnls (short_pos st) (long_pos st) (KXI_adj_close row) (XLP_adj_close row)
                 zeta s = Inr (False, p)"
    and ml: "month_later (row_date row) = Inr e"
  shows "\<exists>st'. day df g j s M zeta st row = Inr st'
      \<and> stop_loss_date st' = e
      \<and> (\<exists>y m d. strptime (row_date row) = Inr (y, m, d)
            \<and> e = strftime (if m = 12 then y + 1 else y, if m = 12 then 1 else m + 1,
                   min (days_in_month (if m = 12 then y + 1 else y)
                          (if m = 12 then 1 else m + 1)) d))
      \<and> (\<exists>r. trade_log st' = trade_log st @ [r] \<and> position_status r = ''CLOSE''
            \<and> log_date r = row_date row \<and> Reason r = Some ''STOP LOSS'')
      \<and> \<not> is_open (long_pos st') \<and> \<not> is_open (short_pos st')
      \<and> (\<forall>rows. (\<forall>r \<in> set rows. row_date r \<noteq> e) \<longrightarrow>
            (\<exists>st''. sim_loop df g j s M zeta st' rows = Inr st''
               \<and> trade_log st'' = trade_log st' \<and> stop_loss_date st'' = e
               \<and> (\<forall>r. row_date r = e \<longrightarrow>
                     day df g j s M zeta st'' r = decide df g j M zeta (today st'' r) r
                     \<and> stop_loss_date (today st'' r) = '''')))"
proof -
  let ?row = "close_row (row_date row) (short_pos st) (long_pos st) (KXI_adj_close row)
                (XLP_adj_close row) zeta ''STOP LOSS''"
  let ?st' = "(today st row)\<lparr>stop_loss_date := e, trade_log := trade_log st @ [?row],
                short_pos := closed_of (short_pos st), long_pos := closed_of (long_pos st)\<rparr>"
  have d: "day df g j s M zeta st row = Inr ?st'"
    using ol os trig ml by (simp add: day_eval [OF nw ncd] sim_close_open)
  have e1: "stop_loss_date ?st' = e" by simp
  have e2: "\<exists>y m d. strptime (row_date row) = Inr (y, m, d)
            \<and> e = strftime (if m = 12 then y + 1 else y, if m = 12 then 1 else m + 1,
                   min (days_in_month (if m = 12 then y + 1 else y)
                          (if m = 12 then 1 else m + 1)) d)"
    using month_later_Inr [OF ml] by blast
  have e3: "\<exists>r. trade_log ?st' = trade_log st @ [r] \<and> position_status r = ''CLOSE''
            \<and> log_date r = row_date row \<and> Reason r = Some ''STOP LOSS''"
    by (intro exI [of _ ?row]) (simp add: close_row_def)
  have e4: "\<not> is_open (long_pos ?st')" "\<not> is_open (short_pos ?st')"
    by (simp_all add: is_open_closed_of)
  have ne: "stop_loss_date ?st' \<noteq> []" using month_later_nonempty [OF ml] by simp
  have after: "\<not> e < ''2022-01-01''" using month_later_not_before_start [OF ml nw] .
  have e5: "\<exists>st''. sim_loop df g j s M zeta ?st' rows = Inr st''
               \<and> trade_log st'' = trade_log ?st' \<and> stop_loss_date st'' = e
               \<and> (\<forall>r. row_date r = e \<longrightarrow>
                     day df g j s M zeta st'' r = decide df g j M zeta (today st'' r) r
                     \<and> stop_loss_date (today st'' r) = '''')"
    if "\<forall>r \<in> set rows. row_date r \<noteq> e" for rows
  proof -
    from that have "\<forall>r \<in> set rows. row_date r \<noteq> stop_loss_date ?st'" by simp
    from cool_down_skips [OF ne this, of df g j s M zeta]
    obtain st'' where l: "sim_loop df g j s M zeta ?st' rows = Inr st''"
      and t: "trade_log st'' = trade_log ?st'" and c: "stop_loss_date st'' = e"
      and lp: "long_pos st'' = long_pos ?st'"
      by auto
    have cl: "\<not> is_open (long_pos st'')" using lp e4(1) by simp
    have "day df g j s M zeta st'' r = decide df g j M zeta (today st'' r) r
        \<and> stop_loss_date (today st'' r) = ''''" if "row_date r = e" for r
      using cool_down_ends [of r st'' df g j s M zeta] that c after cl by simp
    with l t c show ?thesis by blast
  qed
  from d e1 e2 e3 e4 e5 show ?thesis by blast
qed

text \<open>
  From the sample state with kxi at 14 on 2022-01-04: the loss is 26 of 200, the pair is
  closed, the cool-down ends on 2022-02-04, the next two days add nothing and the day
  2022-02-04 is evaluated.
\<close>

theorem stop_loss_cool_down_witness:
  "get_pnls (short_pos sample_state) (long_pos sample_state) (Fin 14) (Fin 20) (Fin 0)
     (Some (Fin (1 / 10))) = Inr (False, Fin 0)
   \<and> month_later ''2022-01-04'' = Inr ''2022-02-04''
   \<and> (\<exists>st' r st''. day (two_days 14) (Fin (1 / 20)) (Fin (1 / 100)) (Some (Fin (1 / 10))) 1
            (Fin 0) sample_state (next_day 14) = Inr st'
        \<and> stop_loss_date st' = ''2022-02-04''
        \<and> trade_log st' = trade_log sample_state @ [r]
        \<and> position_status r = ''CLOSE'' \<and> log_date r = ''2022-01-04''
        \<and> Reason r = Some ''STOP LOSS''
        \<and> \<not> is_open (long_pos st') \<and> \<not> is_open (short_pos st')
        \<and> sim_loop (two_days 14) (Fin (1 / 20)) (Fin (1 / 100)) (Some (Fin (1 / 10))) 1 (Fin 0)
             st' [later_day ''2022-01-05'', later_day ''2022-01-06''] = Inr st''
        \<and> trade_log st'' = trade_log st'
        \<and> day (two_days 14) (Fin (1 / 20)) (Fin (1 / 100)) (Some (Fin (1 / 10))) 1 (Fin 0)
             st'' (later_day ''2022-02-04'')
           = decide (two_days 14) (Fin (1 / 20)) (Fin (1 / 100)) 1 (Fin 0)
               (today st'' (later_day ''2022-02-04'')) (later_day ''2022-02-04''))"
proof -
  have nc: "stop_loss_date sample_state = ''''
      \<or> row_date (next_day 14) = stop_loss_date sample_state"
    by (simp add: sample_state_facts)
  have c: "get_pnls (short_pos sample_state) (long_pos sample_state)
      (KXI_adj_close (next_day 14)) (XLP_adj_close (next_day 14)) (Fin 0) (Some (Fin (1 / 10)))
      = Inr (False, Fin 0)"
    by (simp add: next_day_facts sample_checks)
  have m: "month_later (row_date (next_day 14)) = Inr ''2022-02-04''"
    by (simp add: next_day_facts sample_month)
  from stop_loss_cool_down [OF next_day_facts(1) nc sample_state_facts(2,3) c m,
      of "two_days 14" "Fin (1 / 20)" "Fin (1 / 100)" 1]
  obtain st' r where d: "day (two_days 14) (Fin (1 / 20)) (Fin (1 / 100)) (Some (Fin (1 / 10))) 1
            (Fin 0) sample_state (next_day 14) = Inr st'"
    and s: "stop_loss_date st' = ''2022-02-04''"
    and t: "trade_log st' = trade_log sample_state @ [r]" "position_status r = ''CLOSE''"
      "log_date r = row_date (next_day 14)" "Reason r = Some ''STOP LOSS''"
    and o: "\<not> is_open (long_pos st')" "\<not> is_open (short_pos st')"
    and k: "\<forall>rows. (\<forall>r \<in> set rows. row_date r \<noteq> ''2022-02-04'') \<longrightarrow>
            (\<exists>st''. sim_loop (two_days 14) (Fin (1 / 20)) (Fin (1 / 100))
                 (Some (Fin (1 / 10))) 1 (Fin 0) st' rows = Inr st''
               \<and> trade_log st'' = trade_log st' \<and> stop_loss_date st'' = ''2022-02-04''
               \<and> (\<forall>r. row_date r = ''2022-02-04'' \<longrightarrow>
                     day (two_days 14) (Fin (1 / 20)) (Fin (1 / 100)) (Some (Fin (1 / 10))) 1
                       (Fin 0) st'' r
                     = decide (two_days 14) (Fin (1 / 20)) (Fin (1 / 100)) 1 (Fin 0)
                         (today st'' r) r
                     \<and> stop_loss_date (today st'' r) = ''''))"
    by blast
  have "\<forall>r \<in> set [later_day ''2022-01-05'', later_day ''2022-01-06''].
      row_date r \<noteq> ''2022-02-04''"
    by (simp add: later_day_def)
  with k obtain st'' where
    l: "sim_loop (two_days 14) (Fin (1 / 20)) (Fin (1 / 100)) (Some (Fin (1 / 10))) 1 (Fin 0)
             st' [later_day ''2022-01-05'', later_day ''2022-01-06''] = Inr st''"
    and t2: "trade_log st'' = trade_log st'"
    and r2: "\<forall>r. row_date r = ''2022-02-04'' \<longrightarrow>
                     day (two_days 14) (Fin (1 / 20)) (Fin (1 / 100)) (Some (Fin (1 / 10))) 1
                       (Fin 0) st'' r
                     = decide (two_days 14) (Fin (1 / 20)) (Fin (1 / 100)) 1 (Fin 0)
                         (today st'' r) r
                     \<and> stop_loss_date (today st'' r) = ''''"
    by blast
  have "row_date (later_day ''2022-02-04'') = ''2022-02-04''" by (simp add: later_day_def)
  with r2 have r3: "day (two_days 14) (Fin (1 / 20)) (Fin (1 / 100)) (Some (Fin (1 / 10))) 1
      (Fin 0) st'' (later_day ''2022-02-04'')
      = decide (two_days 14) (Fin (1 / 20)) (Fin (1 / 100)) 1 (Fin 0)
          (today st'' (later_day ''2022-02-04'')) (later_day ''2022-02-04'')"
    by blast
  from t(3) have t3: "log_date r = ''2022-01-04''" by (simp add: next_day_facts)
  from d s t(1,2) t3 t(4) o l t2 r3 sample_checks(3) sample_month show ?thesis by blast
qed

end
